(* ===== verification/Prelude.thy ===== *)
theory Prelude
  imports Main
begin

text \<open>
  Shared vocabulary of the development: the collection of rewrite rules for the
  JavaScript operations the relay uses, association lists with JavaScript's
  in-place property update, the string predicates of \<open>String.prototype\<close>
  (\<open>includes\<close>, \<open>startsWith\<close>), ASCII case folding as used by Express's
  case-insensitive route matching, and the decimal rendering of numbers that a
  template literal performs.
\<close>

named_theorems js_simps "evaluation rules of the modelled JavaScript operations"

type_synonym 'v props = "(string \<times> 'v) list"

section \<open>Association lists with in-place update\<close>

text \<open>
  A JavaScript object keeps its own properties in insertion order. Assigning to an
  existing property keeps its position; assigning to a new one appends it. This is
  \<open>props_set\<close>.
\<close>

fun props_set :: "('k \<times> 'v) list \<Rightarrow> 'k \<Rightarrow> 'v \<Rightarrow> ('k \<times> 'v) list" where
  "props_set [] k v = [(k, v)]"
| "props_set ((a, b) # ps) k v =
     (if a = k then (k, v) # ps else (a, b) # props_set ps k v)"

section \<open>Strings\<close>

text \<open>\<open>s.includes(n)\<close>: the needle occurs as a contiguous substring.\<close>

fun str_includes :: "string \<Rightarrow> string \<Rightarrow> bool" where
  "str_includes [] n = (n = [])"
| "str_includes (c # s) n = (take (length n) (c # s) = n \<or> str_includes s n)"

text \<open>\<open>xs.join(sep)\<close> on strings.\<close>

fun join_with :: "string \<Rightarrow> string list \<Rightarrow> string" where
  "join_with sep [] = []"
| "join_with sep [x] = x"
| "join_with sep (x # xs) = x @ sep @ join_with sep xs"

text \<open>\<open>s.startsWith(p)\<close>.\<close>

definition starts_with :: "string \<Rightarrow> string \<Rightarrow> bool" where
  "starts_with s p \<longleftrightarrow> take (length p) s = p"

text \<open>ASCII case folding (the only letters in the routes are ASCII).\<close>

definition lower_char :: "char \<Rightarrow> char" where
  "lower_char c =
     (let n = (of_char c :: nat) in if 65 \<le> n \<and> n \<le> 90 then char_of (n + 32) else c)"

definition lower :: "string \<Rightarrow> string" where
  "lower s = map lower_char s"

text \<open>Decimal rendering of a natural number, as \<open>String(n)\<close> prints it.\<close>

definition digit_char :: "nat \<Rightarrow> char" where
  "digit_char d = char_of (48 + d :: nat)"

fun nat_str :: "nat \<Rightarrow> string" where
  "nat_str n = (if n < 10 then [digit_char n] else nat_str (n div 10) @ [digit_char (n mod 10)])"

declare nat_str.simps [simp del]

section \<open>Lemmas\<close>

lemma map_of_props_set [simp]: "map_of (props_set ps k v) = (map_of ps)(k \<mapsto> v)"
  by (induction ps) (auto simp: fun_eq_iff)

lemma fst_set_props_set [simp]: "fst ` set (props_set ps k v) = insert k (fst ` set ps)"
  by (induction ps) force+

lemma filter_None_update_less:
  "i < length xs \<Longrightarrow> xs ! i = None \<Longrightarrow>
     length (filter (\<lambda>c. c = None) (xs[i := Some r])) < length (filter (\<lambda>c. c = None) xs)"
proof (induction xs arbitrary: i)
  case (Cons x xs)
  then show ?case by (cases i) auto
qed simp

lemma keys_props_set:
  "map fst (props_set ps k v) = (if k \<in> set (map fst ps) then map fst ps else map fst ps @ [k])"
  by (induction ps) force+

lemma set_keys_props_set [simp]: "set (map fst (props_set ps k v)) = insert k (set (map fst ps))"
  by simp

lemma filter_keys_props_set_other [simp]:
  "\<not> P k \<Longrightarrow> filter P (map fst (props_set ps k v)) = filter P (map fst ps)"
  by (induction ps) auto

lemma str_includes_single [simp]: "str_includes s [c] \<longleftrightarrow> c \<in> set s"
  by (induction s) auto

lemma str_includes_Nil [simp]: "str_includes s []"
  by (cases s) auto

lemma str_includes_append_right: "str_includes t n \<Longrightarrow> str_includes (s @ t) n"
  by (induction s) auto

lemma str_includes_prefix: "str_includes (n @ t) n"
  by (cases "n @ t") (auto simp: append_eq_Cons_conv)

lemma str_includes_middle [intro]: "str_includes (s @ n @ t) n"
  by (rule str_includes_append_right) (rule str_includes_prefix)

lemma lower_append [simp]: "lower (s @ t) = lower s @ lower t"
  by (simp add: lower_def)

lemma length_lower [simp]: "length (lower s) = length s"
  by (simp add: lower_def)

lemma lower_idem [simp]: "lower (lower s) = lower s"
proof -
  have "lower_char (lower_char c) = lower_char c" for c
    by (simp add: lower_char_def Let_def)
  then show ?thesis by (simp add: lower_def comp_def)
qed

lemmas [js_simps] = map_of_props_set set_keys_props_set str_includes_single

end
