(* ===== verification/Json.thy ===== *)
theory Json
  imports Prelude
begin

text \<open>
  The JavaScript values the relay handles: parsed JSON (the upstream's offer list and
  offer details, the response bodies it sends), with \<open>undefined\<close> as \<open>None\<close> of
  \<open>json option\<close>. The operations are the ones the source applies to them: truthiness
  and \<open>a || b\<close>, property reads \<open>o.p\<close> (a \<open>TypeError\<close> on \<open>null\<close>), the object
  literal \<open>{...o, k: v}\<close>, and the string conversion of a template literal
  \<open>`...${v}...`\<close>. JSON numbers are modelled as integers.
\<close>

datatype json =
    JNull
  | JBool bool
  | JNum int
  | JStr string
  | JArr "json list"
  | JObj "(string \<times> json) list"

text \<open>The exceptions the modelled code can raise or receive.\<close>

datatype js_error =
    TypeError          \<comment> \<open>property read on \<open>null\<close>, call of a missing method\<close>
  | SyntaxError        \<comment> \<open>\<open>response.json()\<close> or \<open>JSON.parse\<close> on a malformed body\<close>
  | FetchFailed string \<comment> \<open>rejected \<open>fetch\<close>: network error, abort, timeout\<close>

definition err_name :: "js_error \<Rightarrow> string" where
  "err_name e = (case e of TypeError \<Rightarrow> ''TypeError'' | SyntaxError \<Rightarrow> ''SyntaxError''
                 | FetchFailed m \<Rightarrow> ''FetchError: '' @ m)"

section \<open>Truthiness and \<open>||\<close>\<close>

text \<open>
  The falsy values: \<open>undefined\<close>, \<open>null\<close>, \<open>false\<close>, \<open>0\<close>, and the empty string
  (\<open>NaN\<close> is not a JSON value). Arrays and objects, even empty ones, are truthy.
\<close>

fun truthy :: "json \<Rightarrow> bool" where
  "truthy JNull = False"
| "truthy (JBool b) = b"
| "truthy (JNum n) = (n \<noteq> 0)"
| "truthy (JStr s) = (s \<noteq> [])"
| "truthy (JArr _) = True"
| "truthy (JObj _) = True"

definition js_truthy :: "json option \<Rightarrow> bool" where
  "js_truthy v = (case v of None \<Rightarrow> False | Some j \<Rightarrow> truthy j)"

text \<open>\<open>a || d\<close> where the default \<open>d\<close> is a defined value.\<close>

definition js_or :: "json option \<Rightarrow> json \<Rightarrow> json" where
  "js_or a d = (case a of Some v \<Rightarrow> if truthy v then v else d | None \<Rightarrow> d)"

section \<open>Property access\<close>

text \<open>
  \<open>v.p\<close>: a JSON object yields its own property (or \<open>undefined\<close>); \<open>null\<close>
  throws; the primitive values, strings and arrays have no property of the names the
  relay reads (\<open>offers\<close>, \<open>network_offer_id\<close>, \<open>default_payout\<close>, \<open>currency\<close>),
  so they yield \<open>undefined\<close>.
\<close>

fun get_prop :: "json \<Rightarrow> string \<Rightarrow> js_error + json option" where
  "get_prop JNull p = Inl TypeError"
| "get_prop (JObj ps) p = Inr (map_of ps p)"
| "get_prop _ p = Inr None"

section \<open>Object spread\<close>

text \<open>
  \<open>{...v}\<close> copies the own enumerable properties of \<open>v\<close>: an object's properties in
  order; an array's elements and a string's characters under their indices
  \<open>"0"\<close>, \<open>"1"\<close>, ...; nothing for \<open>null\<close>, booleans and numbers.
\<close>

definition index_props :: "'a list \<Rightarrow> (string \<times> 'a) list" where
  "index_props xs = zip (map nat_str [0..<length xs]) xs"

fun spread :: "json \<Rightarrow> (string \<times> json) list" where
  "spread (JObj ps) = ps"
| "spread (JArr xs) = index_props xs"
| "spread (JStr s) = index_props (map (\<lambda>c. JStr [c]) s)"
| "spread _ = []"

section \<open>String conversion in template literals\<close>

definition int_str :: "int \<Rightarrow> string" where
  "int_str i = (if i < 0 then CHR ''-'' # nat_str (nat (- i)) else nat_str (nat i))"

text \<open>
  \<open>`${v}`\<close>: strings as they are, numbers in decimal, arrays joined by commas (with
  \<open>null\<close> elements as the empty string), objects as \<open>[object Object]\<close>, and
  \<open>undefined\<close> as the word.
\<close>

fun to_str :: "json \<Rightarrow> string" where
  "to_str JNull = ''null''"
| "to_str (JBool b) = (if b then ''true'' else ''false'')"
| "to_str (JNum n) = int_str n"
| "to_str (JStr s) = s"
| "to_str (JArr xs) = join_with '','' (map (\<lambda>x. if x = JNull then [] else to_str x) xs)"
| "to_str (JObj _) = ''[object Object]''"

definition js_str :: "json option \<Rightarrow> string" where
  "js_str v = (case v of None \<Rightarrow> ''undefined'' | Some j \<Rightarrow> to_str j)"

section \<open>Lemmas\<close>

lemma js_or_Some_truthy [simp, js_simps]: "truthy v \<Longrightarrow> js_or (Some v) d = v"
  by (simp add: js_or_def)

lemma js_or_falsy [simp, js_simps]: "\<not> js_truthy a \<Longrightarrow> js_or a d = d"
  by (auto simp: js_or_def js_truthy_def split: option.splits)

lemma js_or_None [simp, js_simps]: "js_or None d = d"
  by (simp add: js_or_def)

lemma truthy_js_or: "truthy d \<Longrightarrow> truthy (js_or a d)"
  by (simp add: js_or_def split: option.splits)

lemma get_prop_obj [simp, js_simps]: "get_prop (JObj ps) p = Inr (map_of ps p)"
  by simp

lemma get_prop_not_null: "v \<noteq> JNull \<Longrightarrow> \<exists>r. get_prop v p = Inr r"
  by (cases v) auto

lemma get_prop_Inl: "get_prop v p = Inl e \<longleftrightarrow> v = JNull \<and> e = TypeError"
  by (cases v) auto

lemmas json_eval [js_simps] = js_truthy_def js_or_def to_str.simps js_str_def int_str_def

end
