(* ===== verification/Validator.thy ===== *)
theory Validator
  imports Json
begin

text \<open>
  The request validator of \<open>GET /partner-dashboard/offers\<close> in \<open>src/index.js\<close>
  (lines 47--74) and the upstream URLs the handler builds from the validated
  parameters (lines 76--82 and 109). Express parses the query string with \<open>qs\<close>: a
  parameter is a string, an array of strings when it is repeated
  (\<open>?a=x&a=y\<close>), or an object when it is written with brackets (\<open>?a[k]=v\<close>).
  The validator's checks are JavaScript expressions over these values:
  \<open>!affiliate_id\<close>, \<open>affiliate_id.includes('{')\<close> (a substring test on a string, an
  element test on an array, a \<open>TypeError\<close> on an object, which has no
  \<open>includes\<close>), and \<open>['top','latest'].includes(type)\<close>.
\<close>

datatype qval = QStr string | QArr "string list" | QObj "(string \<times> string) list"

type_synonym query = "(string \<times> qval) list"

definition q_truthy :: "qval option \<Rightarrow> bool" where
  "q_truthy v = (case v of None \<Rightarrow> False | Some (QStr s) \<Rightarrow> s \<noteq> [] | Some _ \<Rightarrow> True)"

text \<open>\<open>v.includes(n)\<close> on a query value.\<close>

fun q_includes :: "qval \<Rightarrow> string \<Rightarrow> js_error + bool" where
  "q_includes (QStr s) n = Inr (str_includes s n)"
| "q_includes (QArr xs) n = Inr (n \<in> set xs)"
| "q_includes (QObj _) n = Inl TypeError"

text \<open>\<open>`${v}`\<close> on a query value (an array is joined with commas).\<close>

fun q_str :: "qval \<Rightarrow> string" where
  "q_str (QStr s) = s"
| "q_str (QArr xs) = join_with '','' xs"
| "q_str (QObj _) = ''[object Object]''"

text \<open>
  The outcome of the checks: the status-probe short cut (no usable
  \<open>affiliate_id\<close>), the two rejections, or the parameters the pipeline runs on.
\<close>

datatype validation =
    StatusProbe
  | BadAffiliate qval
  | BadType
  | Valid qval "qval option"

definition valid_type :: "qval option \<Rightarrow> bool" where
  "valid_type t \<longleftrightarrow> t = Some (QStr ''top'') \<or> t = Some (QStr ''latest'')"

definition validate_offers :: "query \<Rightarrow> js_error + validation" where
  "validate_offers q =
     (let aff = map_of q ''affiliate_id''; typ = map_of q ''type'' in
      case aff of
        None \<Rightarrow> Inr StatusProbe
      | Some a \<Rightarrow>
          if \<not> q_truthy (Some a) then Inr StatusProbe
          else (case q_includes a ''{'' of
                  Inl e \<Rightarrow> Inl e
                | Inr True \<Rightarrow> Inr (BadAffiliate a)
                | Inr False \<Rightarrow>
                    if q_truthy typ \<and> \<not> valid_type typ then Inr BadType
                    else Inr (Valid a typ)))"

section \<open>Upstream URLs\<close>

definition eflow_host :: string where
  "eflow_host = ''https://api.eflow.team''"

definition sort_clause :: "qval option \<Rightarrow> string" where
  "sort_clause t =
     (if t = Some (QStr ''top'') then ''&sort_by=payout&sort_direction=desc''
      else if t = Some (QStr ''latest'') then ''&sort_by=created_at&sort_direction=desc''
      else [])"

definition list_url :: "qval \<Rightarrow> qval option \<Rightarrow> string" where
  "list_url a t =
     eflow_host @ ''/v1/networks/offers?affiliate_id='' @ q_str a
       @ ''&limit=10&status=active&visibility=public'' @ sort_clause t"

definition detail_url :: "json option \<Rightarrow> qval \<Rightarrow> string" where
  "detail_url oid a =
     eflow_host @ ''/v1/networks/offers/'' @ js_str oid @ ''?affiliate_id='' @ q_str a"

section \<open>The contract of spec section 4.1\<close>

text \<open>
  The abstract validator: a request is an optional affiliate id and an optional type,
  both strings; rules apply in order. \<open>spec_validate\<close> is the promise, and
  \<open>abs_validation\<close> reads the code's outcome in its terms.
\<close>

datatype sort_mode = SortNone | SortTop | SortLatest

datatype spec_outcome = SpecProbe | SpecBadAffiliate | SpecBadType | SpecValid string sort_mode

definition spec_validate :: "string option \<Rightarrow> string option \<Rightarrow> spec_outcome" where
  "spec_validate aff typ =
     (case aff of
        None \<Rightarrow> SpecProbe
      | Some a \<Rightarrow>
          if CHR ''{'' \<in> set a then SpecBadAffiliate
          else (case typ of
                  None \<Rightarrow> SpecValid a SortNone
                | Some t \<Rightarrow>
                    if t = ''top'' then SpecValid a SortTop
                    else if t = ''latest'' then SpecValid a SortLatest
                    else SpecBadType))"

definition sort_of :: "qval option \<Rightarrow> sort_mode" where
  "sort_of t =
     (if t = Some (QStr ''top'') then SortTop
      else if t = Some (QStr ''latest'') then SortLatest else SortNone)"

fun abs_validation :: "validation \<Rightarrow> spec_outcome" where
  "abs_validation StatusProbe = SpecProbe"
| "abs_validation (BadAffiliate _) = SpecBadAffiliate"
| "abs_validation BadType = SpecBadType"
| "abs_validation (Valid a t) = SpecValid (q_str a) (sort_of t)"

definition str_query :: "string option \<Rightarrow> string option \<Rightarrow> query" where
  "str_query aff typ =
     (case aff of None \<Rightarrow> [] | Some a \<Rightarrow> [(''affiliate_id'', QStr a)])
     @ (case typ of None \<Rightarrow> [] | Some t \<Rightarrow> [(''type'', QStr t)])"

section \<open>Lemmas\<close>

lemma map_of_str_query_aff [simp]:
  "map_of (str_query aff typ) ''affiliate_id'' = map_option QStr aff"
  by (simp add: str_query_def map_of_append split: option.splits)

lemma map_of_str_query_type [simp]:
  "map_of (str_query aff typ) ''type'' = map_option QStr typ"
  by (simp add: str_query_def map_of_append split: option.splits)

lemma sort_clause_cases:
  "sort_clause t = (case sort_of t of SortNone \<Rightarrow> [] | SortTop \<Rightarrow> ''&sort_by=payout&sort_direction=desc''
                    | SortLatest \<Rightarrow> ''&sort_by=created_at&sort_direction=desc'')"
  by (simp add: sort_clause_def sort_of_def)

lemma validate_offers_no_aff [simp]:
  "map_of q ''affiliate_id'' = None \<Longrightarrow> validate_offers q = Inr StatusProbe"
  by (simp add: validate_offers_def)

lemma validate_offers_Valid:
  "validate_offers q = Inr (Valid a t) \<Longrightarrow>
     map_of q ''affiliate_id'' = Some a \<and> map_of q ''type'' = t \<and> q_truthy (Some a)
     \<and> q_includes a ''{'' = Inr False \<and> (q_truthy t \<longrightarrow> valid_type t)"
  by (auto simp: validate_offers_def Let_def split: option.splits sum.splits bool.splits if_splits)

lemma validate_offers_Inl:
  "validate_offers q = Inl e \<longleftrightarrow> e = TypeError \<and> (\<exists>ps. map_of q ''affiliate_id'' = Some (QObj ps))"
proof -
  have "q_includes a n = Inl e \<longleftrightarrow> e = TypeError \<and> (\<exists>ps. a = QObj ps)" for a n
    by (cases a) auto
  then show ?thesis
    by (auto simp: validate_offers_def Let_def q_truthy_def
             split: option.splits sum.splits bool.splits if_splits qval.splits)
qed

lemma validate_offers_str:
  "map_of q ''affiliate_id'' = Some (QStr s) \<Longrightarrow>
     validate_offers q =
       (if s = [] then Inr StatusProbe
        else if CHR ''{'' \<in> set s then Inr (BadAffiliate (QStr s))
        else if q_truthy (map_of q ''type'') \<and> \<not> valid_type (map_of q ''type'') then Inr BadType
        else Inr (Valid (QStr s) (map_of q ''type'')))"
  by (simp add: validate_offers_def q_truthy_def Let_def)

lemma list_url_includes_aff: "str_includes (list_url a t) (q_str a)"
proof -
  have "list_url a t = (eflow_host @ ''/v1/networks/offers?affiliate_id='') @ q_str a
          @ (''&limit=10&status=active&visibility=public'' @ sort_clause t)"
    by (simp add: list_url_def)
  then show ?thesis by (simp only: str_includes_middle)
qed

lemmas validator_simps [js_simps] = validate_offers_def q_truthy_def valid_type_def
  sort_clause_def list_url_def detail_url_def eflow_host_def

text \<open>
  C5. Refinement of the contract of spec section 4.1: on a query whose parameters are
  plain strings, neither of them empty, the code's validator produces exactly the
  outcome of the specified rule chain (status probe, invalid \<open>affiliate_id\<close>,
  invalid \<open>type\<close>, or a request with the affiliate id and the sort mode).
\<close>

theorem validate_offers_refines_spec:
  assumes "aff \<noteq> Some []" and "typ \<noteq> Some []"
  shows "\<exists>v. validate_offers (str_query aff typ) = Inr v \<and> abs_validation v = spec_validate aff typ"
proof (cases aff)
  case None
  then show ?thesis by (simp add: spec_validate_def)
next
  case (Some s)
  with assms(1) have "s \<noteq> []" by simp
  moreover have "map_of (str_query aff typ) ''affiliate_id'' = Some (QStr s)"
    using Some by simp
  ultimately show ?thesis
    using Some assms(2)
    by (cases "typ") (auto simp: validate_offers_str spec_validate_def q_truthy_def valid_type_def sort_of_def)
qed

theorem validate_offers_refines_spec_witness:
  "\<exists>v. validate_offers (str_query (Some ''af123'') (Some ''latest'')) = Inr v
       \<and> abs_validation v = SpecValid ''af123'' SortLatest"
proof -
  have "\<exists>v. validate_offers (str_query (Some ''af123'') (Some ''latest'')) = Inr v
          \<and> abs_validation v = spec_validate (Some ''af123'') (Some ''latest'')"
    by (rule validate_offers_refines_spec) simp_all
  then show ?thesis by (simp add: spec_validate_def)
qed

text \<open>
  C14. The \<open>{\<close> guard is bypassed by a repeated parameter: when \<open>affiliate_id\<close> is
  given several times, \<open>qs\<close> yields an array, \<open>includes('{')\<close> tests for an element
  equal to \<open>"{"\<close> rather than for the character, and the comma-joined values,
  braces included, are placed in the upstream URL.
\<close>

theorem array_affiliate_bypass:
  assumes "map_of q ''affiliate_id'' = Some (QArr xs)" and "''{'' \<notin> set xs"
    and "\<not> q_truthy (map_of q ''type'')"
  shows "validate_offers q = Inr (Valid (QArr xs) (map_of q ''type''))
         \<and> str_includes (list_url (QArr xs) (map_of q ''type'')) (join_with '','' xs)"
proof
  show "validate_offers q = Inr (Valid (QArr xs) (map_of q ''type''))"
    using assms by (simp add: validate_offers_def q_truthy_def)
  show "str_includes (list_url (QArr xs) (map_of q ''type'')) (join_with '','' xs)"
    using list_url_includes_aff [of "QArr xs"] by simp
qed

theorem array_affiliate_bypass_witness:
  "validate_offers [(''affiliate_id'', QArr [''{{id}}'', ''x''])] = Inr (Valid (QArr [''{{id}}'', ''x'']) None)
   \<and> str_includes (list_url (QArr [''{{id}}'', ''x'']) None) ''{{id}},x''"
  using array_affiliate_bypass [of "[(''affiliate_id'', QArr [''{{id}}'', ''x''])]" "[''{{id}}'', ''x'']"]
  by (simp add: q_truthy_def)

text \<open>
  C15. An empty \<open>type\<close> is accepted as if it were absent: \<open>?type=\<close> passes the
  check (the empty string is falsy), the list call gets no sort clause, while the rule
  of spec section 4.1 rejects every present type other than \<open>top\<close> and \<open>latest\<close>.
\<close>

theorem empty_type_accepted:
  assumes "map_of q ''affiliate_id'' = Some (QStr s)" and "s \<noteq> []" and "CHR ''{'' \<notin> set s"
    and "map_of q ''type'' = Some (QStr [])"
  shows "validate_offers q = Inr (Valid (QStr s) (Some (QStr [])))
         \<and> sort_clause (Some (QStr [])) = [] \<and> spec_validate (Some s) (Some []) = SpecBadType"
  using assms by (simp add: validate_offers_str q_truthy_def sort_clause_def spec_validate_def)

theorem empty_type_accepted_witness:
  "validate_offers [(''affiliate_id'', QStr ''af123''), (''type'', QStr [])]
     = Inr (Valid (QStr ''af123'') (Some (QStr [])))"
  using empty_type_accepted [of "[(''affiliate_id'', QStr ''af123''), (''type'', QStr [])]" "''af123''"]
  by simp

end
