(* ===== verification/Upstream.thy ===== *)
theory Upstream
  imports Validator
begin

text \<open>
  The interface between the relay and the Everflow API. The relay's only effect on the
  world is \<open>fetch(url, {headers, timeout})\<close>; the provider is modelled as a function
  from the call (URL, the \<open>X-Eflow-API-Key\<close> header, the timeout) to its outcome: a
  rejected promise (network error, abort, timeout) or a response with its status, its
  raw text and the result of parsing that text as JSON (\<open>None\<close>: not JSON). A
  deterministic provider is a function; the order in which concurrent calls complete is
  modelled separately (theory \<open>Fanout\<close>). The process environment read at start-up
  (\<open>process.env\<close>) is the record \<open>config\<close>. The last section is the provider's
  reading of a URL's query, against which the list URL the relay builds is checked.
\<close>

record config =
  eflow_key :: "string option"     \<comment> \<open>\<open>EFLOW_ADMIN_API_KEY\<close>\<close>
  backend_key :: "string option"   \<comment> \<open>\<open>BACKEND_API_KEY\<close> (internal variant only)\<close>
  node_env :: "string option"      \<comment> \<open>\<open>NODE_ENV\<close>\<close>

record upstream_call =
  call_url :: string
  call_key :: string               \<comment> \<open>value of the \<open>X-Eflow-API-Key\<close> header\<close>
  call_timeout :: "nat option"     \<comment> \<open>\<open>timeout\<close> option in milliseconds, if given\<close>

datatype fetch_outcome =
    Rejected js_error
  | Resp nat string "json option"  \<comment> \<open>status, body text, body parsed as JSON\<close>

type_synonym upstream = "upstream_call \<Rightarrow> fetch_outcome"

text \<open>\<open>response.ok\<close>: a status in 200--299.\<close>

definition resp_ok :: "nat \<Rightarrow> bool" where
  "resp_ok st \<longleftrightarrow> 200 \<le> st \<and> st \<le> 299"

text \<open>
  The header value: a \<open>Headers\<close> object stores \<open>String(v)\<close>, so an unset key is
  sent as the text \<open>undefined\<close>.
\<close>

definition key_header :: "config \<Rightarrow> string" where
  "key_header cfg = (case eflow_key cfg of None \<Rightarrow> ''undefined'' | Some k \<Rightarrow> k)"

text \<open>The calls of \<open>src/index.js\<close>: the list call (lines 85--91) and a detail call (112--118).\<close>

definition list_call :: "config \<Rightarrow> qval \<Rightarrow> qval option \<Rightarrow> upstream_call" where
  "list_call cfg a t = \<lparr>call_url = list_url a t, call_key = key_header cfg, call_timeout = Some 5000\<rparr>"

definition detail_call :: "config \<Rightarrow> json option \<Rightarrow> qval \<Rightarrow> upstream_call" where
  "detail_call cfg oid a = \<lparr>call_url = detail_url oid a, call_key = key_header cfg, call_timeout = Some 3000\<rparr>"

section \<open>How the provider reads a URL\<close>

text \<open>
  The provider's reading of a query string (spec section 5 lists the parameters): the
  text after the first \<open>?\<close>, split at every \<open>&\<close>, each part split at its first
  \<open>=\<close>. The relay encodes nothing, so percent-decoding plays no part.
\<close>

fun split_on :: "char \<Rightarrow> string \<Rightarrow> string list" where
  "split_on c [] = [[]]"
| "split_on c (x # xs) =
     (if x = c then [] # split_on c xs
      else (case split_on c xs of w # ws \<Rightarrow> (x # w) # ws | [] \<Rightarrow> [[x]]))"




lemmas upstream_simps [js_simps] = resp_ok_def key_header_def list_call_def detail_call_def

section \<open>Lemmas\<close>

lemma split_on_ne [simp]: "split_on c xs \<noteq> []"
  by (induction xs) (auto split: list.split)










end
