(* ===== verification/Enrich.thy ===== *)
theory Enrich
  imports Upstream
begin

text \<open>
  The per-offer callback of the enrichment fan-out, \<open>offers.map(async (offer) => ...)\<close>
  in \<open>src/index.js\<close>, lines 107--132. It reads \<open>offer.network_offer_id\<close> outside
  its \<open>try\<close> (so a \<open>null\<close> offer rejects the callback's promise), fetches the
  offer's detail, and either returns the offer unchanged (any failure of the detail
  call, its status, its body or its property reads) or the object literal
  \<open>{...offer, default_payout: d.default_payout || 'N/A', currency: d.currency || ''}\<close>.
\<close>

definition merge_detail :: "json \<Rightarrow> json \<Rightarrow> json \<Rightarrow> json" where
  "merge_detail offer p c =
     JObj (props_set (props_set (spread offer) ''default_payout'' p) ''currency'' c)"

text \<open>The body of the \<open>try\<close> block once the detail call has produced its outcome.\<close>

definition detail_merge :: "json \<Rightarrow> fetch_outcome \<Rightarrow> json" where
  "detail_merge offer r =
     (case r of
        Rejected _ \<Rightarrow> offer
      | Resp st _ body \<Rightarrow>
          if \<not> resp_ok st then offer
          else (case body of
                  None \<Rightarrow> offer
                | Some d \<Rightarrow>
                    (case get_prop d ''default_payout'' of
                       Inl _ \<Rightarrow> offer
                     | Inr dp \<Rightarrow>
                        (case get_prop d ''currency'' of
                           Inl _ \<Rightarrow> offer
                         | Inr cur \<Rightarrow> merge_detail offer (js_or dp (JStr ''N/A'')) (js_or cur (JStr ''''))))))"

definition enrich_offer :: "config \<Rightarrow> upstream \<Rightarrow> qval \<Rightarrow> json \<Rightarrow> js_error + json" where
  "enrich_offer cfg up a offer =
     (case get_prop offer ''network_offer_id'' of
        Inl e \<Rightarrow> Inl e
      | Inr oid \<Rightarrow> Inr (detail_merge offer (up (detail_call cfg oid a))))"

text \<open>A detail outcome from which the callback takes the two fields.\<close>

definition detail_usable :: "fetch_outcome \<Rightarrow> bool" where
  "detail_usable r = (case r of Resp st _ (Some d) \<Rightarrow> resp_ok st \<and> d \<noteq> JNull | _ \<Rightarrow> False)"

section \<open>Lemmas\<close>

lemma detail_merge_unusable [simp]: "\<not> detail_usable r \<Longrightarrow> detail_merge offer r = offer"
  by (auto simp: detail_merge_def detail_usable_def split: fetch_outcome.splits option.splits sum.splits)

lemma map_of_merge_detail:
  "get_prop (merge_detail offer p c) k =
     Inr (((map_of (spread offer))(''default_payout'' \<mapsto> p, ''currency'' \<mapsto> c)) k)"
  by (simp add: merge_detail_def)

lemma enrich_offer_null [simp]: "enrich_offer cfg up a JNull = Inl TypeError"
  by (simp add: enrich_offer_def)

lemma enrich_offer_Inl: "enrich_offer cfg up a offer = Inl e \<longleftrightarrow> offer = JNull \<and> e = TypeError"
  by (auto simp: enrich_offer_def get_prop_Inl split: sum.splits)

lemma enrich_offer_ok:
  "offer \<noteq> JNull \<Longrightarrow> enrich_offer cfg up a offer
     = Inr (detail_merge offer (up (detail_call cfg (projr (get_prop offer ''network_offer_id'')) a)))"
  by (auto simp: enrich_offer_def dest: get_prop_not_null [of offer "''network_offer_id''"])

text \<open>
  C3. Per-offer failure isolation: when the detail call of an offer rejects (network
  error, timeout), answers with a status outside 200--299, returns a body that is not
  JSON, or returns the JSON value \<open>null\<close>, the callback resolves to the offer
  itself, unchanged; no detail failure makes it reject.
\<close>

theorem enrich_offer_isolation:
  assumes "offer \<noteq> JNull"
    and "up (detail_call cfg (projr (get_prop offer ''network_offer_id'')) a) = r"
    and "(\<exists>e. r = Rejected e) \<or> (\<exists>st txt b. r = Resp st txt b \<and> (\<not> resp_ok st \<or> b = None \<or> b = Some JNull))"
  shows "enrich_offer cfg up a offer = Inr offer"
proof -
  from assms(3) have "\<not> detail_usable r"
    by (auto simp: detail_usable_def split: option.splits)
  with assms(1,2) show ?thesis by (simp add: enrich_offer_ok)
qed

theorem enrich_offer_isolation_witness:
  "enrich_offer \<lparr>eflow_key = Some ''k'', backend_key = None, node_env = None\<rparr>
      (\<lambda>c. Resp 404 ''Not Found'' None) (QStr ''af1'')
      (JObj [(''network_offer_id'', JNum 7), (''name'', JStr ''Offer'')])
   = Inr (JObj [(''network_offer_id'', JNum 7), (''name'', JStr ''Offer'')])"
  by (rule enrich_offer_isolation) (auto simp: resp_ok_def)

text \<open>
  C4. A successful detail lookup on an object offer yields an object that keeps every
  other field of the offer with its value and in its order, and sets exactly
  \<open>default_payout\<close> (the detail's value, or \<open>"N/A"\<close> when it is falsy) and
  \<open>currency\<close> (the detail's value, or \<open>""\<close>).
\<close>

theorem enrich_offer_fields:
  assumes "up (detail_call cfg (map_of ps ''network_offer_id'') a) = Resp st txt (Some (JObj d))"
    and "resp_ok st"
  shows "\<exists>ps'. enrich_offer cfg up a (JObj ps) = Inr (JObj ps')
     \<and> (\<forall>k. k \<noteq> ''default_payout'' \<and> k \<noteq> ''currency'' \<longrightarrow> map_of ps' k = map_of ps k)
     \<and> map_of ps' ''default_payout'' = Some (js_or (map_of d ''default_payout'') (JStr ''N/A''))
     \<and> map_of ps' ''currency'' = Some (js_or (map_of d ''currency'') (JStr ''''))
     \<and> set (map fst ps') = set (map fst ps) \<union> {''default_payout'', ''currency''}
     \<and> filter (\<lambda>k. k \<noteq> ''default_payout'' \<and> k \<noteq> ''currency'') (map fst ps')
         = filter (\<lambda>k. k \<noteq> ''default_payout'' \<and> k \<noteq> ''currency'') (map fst ps)"
proof -
  let ?p = "js_or (map_of d ''default_payout'') (JStr ''N/A'')"
  let ?c = "js_or (map_of d ''currency'') (JStr '''')"
  let ?ps' = "props_set (props_set ps ''default_payout'' ?p) ''currency'' ?c"
  have "enrich_offer cfg up a (JObj ps) = Inr (JObj ?ps')"
    using assms by (simp add: enrich_offer_def detail_merge_def merge_detail_def)
  moreover have "set (map fst ?ps') = set (map fst ps) \<union> {''default_payout'', ''currency''}"
    by auto
  ultimately show ?thesis by auto
qed

theorem enrich_offer_fields_witness:
  "\<exists>ps'. enrich_offer \<lparr>eflow_key = Some ''k'', backend_key = None, node_env = None\<rparr>
      (\<lambda>c. Resp 200 ''{}'' (Some (JObj [(''default_payout'', JNum 12), (''currency'', JStr ''USD'')])))
      (QStr ''af1'') (JObj [(''network_offer_id'', JNum 7), (''name'', JStr ''Offer'')])
    = Inr (JObj ps') \<and> map_of ps' ''name'' = Some (JStr ''Offer'')
    \<and> map_of ps' ''default_payout'' = Some (JNum 12)"
proof -
  let ?cfg = "\<lparr>eflow_key = Some ''k'', backend_key = None, node_env = None\<rparr>"
  let ?d = "[(''default_payout'', JNum 12), (''currency'', JStr ''USD'')]"
  let ?ps = "[(''network_offer_id'', JNum 7), (''name'', JStr ''Offer'')]"
  let ?up = "\<lambda>c::upstream_call. Resp 200 ''{}'' (Some (JObj ?d))"
  have "?up (detail_call ?cfg (map_of ?ps ''network_offer_id'') (QStr ''af1''))
        = Resp 200 ''{}'' (Some (JObj ?d))" and "resp_ok 200"
    by (simp_all add: resp_ok_def)
  from enrich_offer_fields [where up = ?up and cfg = ?cfg and a = "QStr ''af1''" and ps = ?ps, OF this]
  obtain ps' where run: "enrich_offer ?cfg ?up (QStr ''af1'') (JObj ?ps) = Inr (JObj ps')"
    and keep: "\<forall>k. k \<noteq> ''default_payout'' \<and> k \<noteq> ''currency'' \<longrightarrow> map_of ps' k = map_of ?ps k"
    and pay: "map_of ps' ''default_payout'' = Some (js_or (map_of ?d ''default_payout'') (JStr ''N/A''))"
    by blast
  have "map_of ps' ''name'' = Some (JStr ''Offer'')"
    using keep [rule_format, of "''name''"] by simp
  moreover have "map_of ps' ''default_payout'' = Some (JNum 12)"
    using pay by simp
  ultimately show ?thesis using run by blast
qed

text \<open>
  C12. The fallback \<open>d.default_payout || 'N/A'\<close> replaces every falsy payout, not
  only a missing one: a detail that reports a payout of \<open>0\<close>, \<open>""\<close>,
  \<open>false\<close> or \<open>null\<close> yields the offer with \<open>default_payout\<close> \<open>"N/A"\<close>.
\<close>

theorem enrich_falsy_payout:
  assumes "up (detail_call cfg (map_of ps ''network_offer_id'') a) = Resp st txt (Some (JObj d))"
    and "resp_ok st" and "map_of d ''default_payout'' = Some v" and "\<not> truthy v"
  shows "\<exists>ps'. enrich_offer cfg up a (JObj ps) = Inr (JObj ps')
           \<and> map_of ps' ''default_payout'' = Some (JStr ''N/A'')"
  using assms by (simp add: enrich_offer_def detail_merge_def merge_detail_def js_or_def)

theorem enrich_falsy_payout_witness:
  "\<exists>ps'. enrich_offer \<lparr>eflow_key = Some ''k'', backend_key = None, node_env = None\<rparr>
      (\<lambda>c. Resp 200 ''{}'' (Some (JObj [(''default_payout'', JNum 0), (''currency'', JStr ''USD'')])))
      (QStr ''af1'') (JObj [(''network_offer_id'', JNum 7)])
    = Inr (JObj ps') \<and> map_of ps' ''default_payout'' = Some (JStr ''N/A'')"
proof -
  let ?d = "[(''default_payout'', JNum 0), (''currency'', JStr ''USD'')]"
  let ?up = "\<lambda>c::upstream_call. Resp 200 ''{}'' (Some (JObj ?d))"
  let ?cfg = "\<lparr>eflow_key = Some ''k'', backend_key = None, node_env = None\<rparr>"
  let ?ps = "[(''network_offer_id'', JNum 7)]"
  have "?up (detail_call ?cfg (map_of ?ps ''network_offer_id'') (QStr ''af1''))
          = Resp 200 ''{}'' (Some (JObj ?d))"
    and "resp_ok 200" and "map_of ?d ''default_payout'' = Some (JNum 0)" and "\<not> truthy (JNum 0)"
    by (simp_all add: resp_ok_def)
  then show ?thesis
    by (rule enrich_falsy_payout [where up = ?up and cfg = ?cfg and a = "QStr ''af1''" and ps = ?ps])
qed

end
