(* ===== verification/Fanout.thy ===== *)
theory Fanout
  imports Json
begin

text \<open>
  \<open>Promise.all\<close> over the per-offer callbacks (\<open>src/index.js\<close>, lines 106--133):
  all callbacks start at once, and their promises settle in an order the network
  decides. The join is a state machine: one slot per task (\<open>None\<close> while pending,
  then the task's settlement) and the join's own settlement. The settlement of task
  \<open>i\<close> is fixed (\<open>rs ! i\<close>, given by the provider); which pending task settles next
  is not, so the steps form an inductive relation: any pending slot may complete. The
  join rejects with the first rejection it sees, and resolves, with the values in slot
  order, when the last slot fills. \<open>promise_all\<close> is the sequential reading the
  handler uses: the first rejection in index order, else all values in order.
\<close>

record ('e, 'a) pall =
  slots :: "('e + 'a) option list"
  settled :: "('e + 'a list) option"

text \<open>The values of the slots, if every slot has resolved.\<close>

fun collect :: "('e + 'a) option list \<Rightarrow> 'a list option" where
  "collect [] = Some []"
| "collect (Some (Inr v) # xs) = map_option (Cons v) (collect xs)"
| "collect (_ # xs) = None"

definition pall_init :: "nat \<Rightarrow> ('e, 'a) pall" where
  "pall_init n = \<lparr>slots = replicate n None, settled = (if n = 0 then Some (Inr []) else None)\<rparr>"

text \<open>Task \<open>i\<close> settles with \<open>r\<close>.\<close>

definition pall_settle :: "nat \<Rightarrow> 'e + 'a \<Rightarrow> ('e, 'a) pall \<Rightarrow> ('e, 'a) pall" where
  "pall_settle i r s =
     (let sl = (slots s)[i := Some r] in
      \<lparr>slots = sl,
       settled = (case settled s of
                    Some x \<Rightarrow> Some x
                  | None \<Rightarrow> (case r of
                               Inl e \<Rightarrow> Some (Inl e)
                             | Inr _ \<Rightarrow> map_option Inr (collect sl)))\<rparr>)"

inductive pall_step :: "('e + 'a) list \<Rightarrow> ('e, 'a) pall \<Rightarrow> ('e, 'a) pall \<Rightarrow> bool" where
  complete: "i < length (slots s) \<Longrightarrow> slots s ! i = None \<Longrightarrow> pall_step rs s (pall_settle i (rs ! i) s)"

inductive pall_reach :: "('e + 'a) list \<Rightarrow> ('e, 'a) pall \<Rightarrow> bool" where
  start: "pall_reach rs (pall_init (length rs))"
| step: "pall_reach rs s \<Longrightarrow> pall_step rs s t \<Longrightarrow> pall_reach rs t"

inductive_cases pall_stepE: "pall_step rs s t"

fun promise_all :: "('e + 'a) list \<Rightarrow> 'e + 'a list" where
  "promise_all [] = Inr []"
| "promise_all (Inl e # _) = Inl e"
| "promise_all (Inr v # rs) = (case promise_all rs of Inl e \<Rightarrow> Inl e | Inr vs \<Rightarrow> Inr (v # vs))"

text \<open>The number of pending tasks, which every step decreases.\<close>

definition pending :: "('e, 'a) pall \<Rightarrow> nat" where
  "pending s = length (filter (\<lambda>c. c = None) (slots s))"

text \<open>
  The invariant: every filled slot holds its task's settlement; an unsettled join has
  seen no rejection and has a pending slot; a rejected join has seen its rejection; a
  resolved join holds exactly the values of its slots.
\<close>

definition pall_inv :: "('e + 'a) list \<Rightarrow> ('e, 'a) pall \<Rightarrow> bool" where
  "pall_inv rs s \<longleftrightarrow>
     list_all2 (\<lambda>c r. c = None \<or> c = Some r) (slots s) rs \<and>
     (case settled s of
        None \<Rightarrow> (\<forall>c \<in> set (slots s). c = None \<or> (\<exists>v. c = Some (Inr v))) \<and> None \<in> set (slots s)
      | Some (Inl e) \<Rightarrow> Some (Inl e) \<in> set (slots s)
      | Some (Inr vs) \<Rightarrow> collect (slots s) = Some vs)"

section \<open>Lemmas on \<open>collect\<close> and \<open>promise_all\<close>\<close>

lemma collect_Some: "collect xs = Some vs \<longleftrightarrow> xs = map (\<lambda>v. Some (Inr v)) vs"
proof (induction xs arbitrary: vs rule: collect.induct)
  case (2 v xs)
  then show ?case by (cases vs) auto
qed auto

lemma collect_None_pending:
  "\<forall>c \<in> set xs. c = None \<or> (\<exists>v. c = Some (Inr v)) \<Longrightarrow> collect xs = None \<Longrightarrow> None \<in> set xs"
  by (induction xs rule: collect.induct) auto

lemma promise_all_map_Inr [simp]: "promise_all (map Inr vs) = Inr vs"
  by (induction vs) auto

lemma promise_all_Inr: "promise_all rs = Inr vs \<longleftrightarrow> rs = map Inr vs"
proof
  show "promise_all rs = Inr vs \<Longrightarrow> rs = map Inr vs"
    by (induction rs arbitrary: vs rule: promise_all.induct) (auto split: sum.splits)
qed simp

lemma promise_all_Inl: "promise_all rs = Inl e \<Longrightarrow> Inl e \<in> set rs"
  by (induction rs rule: promise_all.induct) (auto split: sum.splits)

lemma promise_all_isl: "isl (promise_all rs) \<longleftrightarrow> (\<exists>e. Inl e \<in> set rs)"
proof (induction rs rule: promise_all.induct)
  case (3 v rs)
  then show ?case by (auto split: sum.splits)
qed auto

section \<open>The invariant\<close>

lemma pall_inv_init: "pall_inv rs (pall_init (length rs))"
  by (cases "rs = []") (auto simp: pall_inv_def pall_init_def list_all2_conv_all_nth)

lemma list_all2_settle:
  assumes "list_all2 (\<lambda>c r. c = None \<or> c = Some r) sl rs" "i < length sl"
  shows "list_all2 (\<lambda>c r. c = None \<or> c = Some r) (sl[i := Some (rs ! i)]) rs"
  using assms by (auto simp: list_all2_conv_all_nth nth_list_update)

lemma set_update_pending:
  "i < length xs \<Longrightarrow> xs ! i = None \<Longrightarrow> x \<in> set xs \<Longrightarrow> x \<noteq> None \<Longrightarrow> x \<in> set (xs[i := y])"
  by (metis in_set_conv_nth length_list_update nth_list_update_neq)

lemma pall_step_inv:
  assumes step: "pall_step rs s t" and inv: "pall_inv rs s"
  shows "pall_inv rs t"
  using step
proof cases
  case (complete i)
  let ?sl = "(slots s)[i := Some (rs ! i)]"
  have len: "i < length rs"
    using complete inv by (auto simp: pall_inv_def list_all2_lengthD)
  have a2: "list_all2 (\<lambda>c r. c = None \<or> c = Some r) ?sl rs"
    using complete inv by (auto simp: pall_inv_def intro: list_all2_settle)
  have upd: "x \<in> set ?sl \<Longrightarrow> x \<in> set (slots s) \<or> x = Some (rs ! i)" for x
    by (auto dest: set_update_subset_insert [THEN subsetD])
  show ?thesis
  proof (cases "settled s")
    case None
    with inv have only_inr: "\<forall>c \<in> set (slots s). c = None \<or> (\<exists>v. c = Some (Inr v))"
      by (simp add: pall_inv_def)
    show ?thesis
    proof (cases "rs ! i")
      case (Inl e)
      with complete None a2 show ?thesis
        by (auto simp: pall_inv_def pall_settle_def Let_def set_update_memI)
    next
      case (Inr v)
      with only_inr upd have "\<forall>c \<in> set ?sl. c = None \<or> (\<exists>v. c = Some (Inr v))" by blast
      with complete None Inr a2 show ?thesis
        by (auto simp: pall_inv_def pall_settle_def Let_def dest: collect_None_pending
                 split: option.splits)
    qed
  next
    case (Some x)
    show ?thesis
    proof (cases x)
      case (Inl e)
      with Some inv complete a2 show ?thesis
        by (auto simp: pall_inv_def pall_settle_def Let_def intro: set_update_pending)
    next
      case (Inr vs)
      with Some inv have "None \<notin> set (slots s)"
        by (auto simp: pall_inv_def collect_Some)
      with complete show ?thesis by (metis nth_mem)
    qed
  qed
qed

lemma pall_reach_inv: "pall_reach rs s \<Longrightarrow> pall_inv rs s"
proof (induction rule: pall_reach.induct)
  case start
  show ?case by (rule pall_inv_init)
next
  case (step s t)
  then show ?case by (blast intro: pall_step_inv)
qed

lemma pall_reach_length: "pall_reach rs s \<Longrightarrow> length (slots s) = length rs"
proof -
  assume "pall_reach rs s"
  then have "pall_inv rs s" by (rule pall_reach_inv)
  then show ?thesis unfolding pall_inv_def by (blast dest: list_all2_lengthD)
qed

lemma pending_settle_less:
  "i < length (slots s) \<Longrightarrow> slots s ! i = None \<Longrightarrow> pending (pall_settle i r s) < pending s"
  by (simp add: pending_def pall_settle_def Let_def filter_None_update_less)

lemma pall_reach_progress:
  "pall_reach rs s \<Longrightarrow> settled s = None \<Longrightarrow> \<exists>i. i < length (slots s) \<and> slots s ! i = None"
  by (auto simp: pall_inv_def in_set_conv_nth dest!: pall_reach_inv)

lemma pall_reach_steps_settle:
  "pall_reach rs s \<Longrightarrow> \<exists>t. (pall_step rs)\<^sup>*\<^sup>* s t \<and> settled t \<noteq> None"
proof (induction "pending s" arbitrary: s rule: less_induct)
  case less
  show ?case
  proof (cases "settled s")
    case None
    with less.prems obtain i where i: "i < length (slots s)" "slots s ! i = None"
      by (blast dest: pall_reach_progress)
    let ?s' = "pall_settle i (rs ! i) s"
    have step: "pall_step rs s ?s'" using i by (rule pall_step.complete)
    with less.prems have "pall_reach rs ?s'" by (rule pall_reach.step)
    moreover have "pending ?s' < pending s" using i by (rule pending_settle_less)
    ultimately obtain t where "(pall_step rs)\<^sup>*\<^sup>* ?s' t" "settled t \<noteq> None"
      using less.hyps by blast
    with step show ?thesis by (meson converse_rtranclp_into_rtranclp)
  qed blast
qed

lemma pall_settled_result:
  assumes "pall_reach rs s" "settled s = Some r"
  shows "(case r of Inl e \<Rightarrow> Inl e \<in> set rs | Inr vs \<Rightarrow> rs = map Inr vs)"
proof -
  from assms(1) have inv: "pall_inv rs s" by (rule pall_reach_inv)
  then have a2: "list_all2 (\<lambda>c r. c = None \<or> c = Some r) (slots s) rs"
    by (simp add: pall_inv_def)
  show ?thesis
  proof (cases r)
    case (Inl e)
    with inv assms(2) have "Some (Inl e) \<in> set (slots s)" by (simp add: pall_inv_def)
    then obtain i where i: "i < length (slots s)" "slots s ! i = Some (Inl e)"
      by (auto simp: in_set_conv_nth)
    with a2 have "i < length rs" "rs ! i = Inl e" by (auto simp: list_all2_conv_all_nth)
    with Inl show ?thesis by (auto dest: nth_mem)
  next
    case (Inr vs)
    with inv assms(2) have "slots s = map (\<lambda>v. Some (Inr v)) vs"
      by (simp add: pall_inv_def collect_Some)
    with a2 Inr show ?thesis
      by (auto simp: list_all2_conv_all_nth intro: nth_equalityI)
  qed
qed

lemma pall_reach_complete:
  "pall_reach rs s \<Longrightarrow> None \<notin> set (slots s) \<Longrightarrow> \<exists>r. settled s = Some r"
  by (metis nth_mem option.exhaust pall_reach_progress)

lemma pall_complete_promise_all:
  assumes "pall_reach rs s" and "None \<notin> set (slots s)"
    and "\<And>e. Inl e \<in> set rs \<Longrightarrow> promise_all rs = Inl e"
  shows "settled s = Some (promise_all rs)"
proof -
  obtain r where r: "settled s = Some r" using assms(1,2) by (blast dest: pall_reach_complete)
  have "(case r of Inl e \<Rightarrow> Inl e \<in> set rs | Inr vs \<Rightarrow> rs = map Inr vs)"
    using assms(1) r by (rule pall_settled_result)
  with assms(3) r show ?thesis by (cases r) auto
qed

text \<open>
  C2. Order preservation regardless of completion order: in every run of the join, in
  whatever order the tasks settle, once every task has settled the join has settled;
  when it resolves, it resolves to exactly the sequential result \<open>promise_all rs\<close>,
  the tasks' values in their original positions; when it rejects, the sequential
  result rejects too, with a rejection one of the tasks produced.
\<close>

theorem pall_schedule_independent:
  assumes "pall_reach rs s" and "None \<notin> set (slots s)"
  shows "\<exists>r. settled s = Some r \<and> (\<not> isl r \<longrightarrow> r = promise_all rs)
              \<and> (isl r \<longleftrightarrow> isl (promise_all rs)) \<and> (isl r \<longrightarrow> Inl (projl r) \<in> set rs)"
proof -
  from assms obtain r where r: "settled s = Some r" by (blast dest: pall_reach_complete)
  have res: "(case r of Inl e \<Rightarrow> Inl e \<in> set rs | Inr vs \<Rightarrow> rs = map Inr vs)"
    using assms(1) r by (rule pall_settled_result)
  show ?thesis
  proof (cases r)
    case (Inl e)
    with res have "isl (promise_all rs)" by (auto simp: promise_all_isl)
    with Inl res r show ?thesis by auto
  next
    case (Inr vs)
    with res r show ?thesis by simp
  qed
qed

theorem pall_schedule_independent_witness:
  "settled (pall_settle 0 (Inr 1) (pall_settle 1 (Inr 2) (pall_init 2)))
     = Some (Inr [1::nat, 2] :: unit + nat list)"
proof -
  let ?rs = "[Inr 1, Inr 2] :: (unit + nat) list"
  let ?s1 = "pall_settle 1 (?rs ! 1) (pall_init 2)"
  let ?s2 = "pall_settle 0 (?rs ! 0) ?s1"
  have r0: "pall_reach ?rs (pall_init 2)"
    using pall_reach.start [of ?rs] by (simp add: numeral_2_eq_2)
  have "pall_step ?rs (pall_init 2) ?s1"
    by (rule pall_step.complete) (simp_all add: pall_init_def)
  with r0 have r1: "pall_reach ?rs ?s1" by (rule pall_reach.step)
  have "pall_step ?rs ?s1 ?s2"
    by (rule pall_step.complete) (simp_all add: pall_init_def pall_settle_def Let_def numeral_2_eq_2)
  with r1 have r2: "pall_reach ?rs ?s2" by (rule pall_reach.step)
  have fin: "None \<notin> set (slots ?s2)"
    by (simp add: pall_init_def pall_settle_def Let_def numeral_2_eq_2)
  from pall_schedule_independent [OF r2 fin] show ?thesis
    by (auto simp: pall_init_def pall_settle_def Let_def numeral_2_eq_2)
qed

end
