(* ===== verification/Handler.thy ===== *)
theory Handler
  imports Enrich Fanout
begin

text \<open>
  The route handler \<open>app.get('/partner-dashboard/offers', async (req, res) => ...)\<close> of
  \<open>src/index.js\<close>, lines 46--156, as a function of the configuration, the provider, the
  current time (\<open>new Date().toISOString()\<close>) and the parsed query. A response is the
  status and the JSON body passed to \<open>res.status(n).json(body)\<close>; fields whose value
  is \<open>undefined\<close> are absent, as \<open>JSON.stringify\<close> drops them. The result is
  \<open>Inl e\<close> when an exception escapes the async handler (it is thrown before the
  \<open>try\<close>), \<open>Inr r\<close> when the handler responds. The join of the enrichment tasks
  is read sequentially (\<open>promise_all\<close>); theory \<open>Fanout\<close> shows every schedule
  agrees with it.
\<close>

record response =
  status :: nat
  body :: json

definition resp :: "nat \<Rightarrow> json \<Rightarrow> response" where
  "resp n b = \<lparr>status = n, body = b\<rparr>"

fun qval_json :: "qval \<Rightarrow> json" where
  "qval_json (QStr s) = JStr s"
| "qval_json (QArr xs) = JArr (map JStr xs)"
| "qval_json (QObj ps) = JObj (map (\<lambda>(k, v). (k, JStr v)) ps)"

section \<open>Response bodies\<close>

definition probe_body :: json where
  "probe_body = JObj [(''status'', JStr ''success''),
                      (''message'', JStr ''Partner dashboard backend is operational'')]"

definition bad_affiliate_body :: "qval \<Rightarrow> json" where
  "bad_affiliate_body a =
     JObj [(''error'', JStr ''Invalid request''),
           (''message'', JStr ''Valid affiliate_id is required''),
           (''details'', JObj [(''received'', qval_json a),
                               (''expected'', JStr ''Non-empty string without special characters'')])]"

definition bad_type_body :: json where
  "bad_type_body = JObj [(''error'', JStr ''Invalid request''),
                         (''message'', JStr ''Type must be either \"top\" or \"latest\" if provided'')]"

definition bad_gateway_body :: "string \<Rightarrow> json" where
  "bad_gateway_body raw =
     JObj [(''error'', JStr ''Bad Gateway''),
           (''message'', JStr ''Failed to fetch offers from Everflow''),
           (''details'', JStr raw)]"

text \<open>The \<open>catch (err)\<close> body; the stack trace is modelled by the error's name.\<close>

definition internal_error_body :: "config \<Rightarrow> js_error \<Rightarrow> json" where
  "internal_error_body cfg e =
     JObj ([(''error'', JStr ''Internal Server Error''),
            (''message'', JStr ''An unexpected error occurred'')]
           @ (if node_env cfg = Some ''development'' then [(''details'', JStr (err_name e))] else []))"

definition success_body :: "json list \<Rightarrow> string \<Rightarrow> json" where
  "success_body eo now =
     JObj [(''status'', JStr ''success''),
           (''data'', JObj [(''offers'', JArr eo),
                            (''count'', JNum (int (length eo))),
                            (''_metadata'', JObj [(''source'', JStr ''Everflow API''),
                                                 (''enrichment'', JStr ''payout_and_currency''),
                                                 (''timestamp'', JStr now)])])]"

section \<open>The pipeline\<close>

text \<open>After \<open>Promise.all\<close> settles: respond with the enriched list, or throw.\<close>

definition join_result :: "string \<Rightarrow> js_error + json list \<Rightarrow> js_error + response" where
  "join_result now r = (case r of Inl e \<Rightarrow> Inl e | Inr eo \<Rightarrow> Inr (resp 200 (success_body eo now)))"

text \<open>The body of the \<open>try\<close> block (lines 85--146).\<close>

definition offers_try :: "config \<Rightarrow> upstream \<Rightarrow> string \<Rightarrow> qval \<Rightarrow> qval option \<Rightarrow> js_error + response" where
  "offers_try cfg up now a t =
     (case up (list_call cfg a t) of
        Rejected e \<Rightarrow> Inl e
      | Resp st raw parsed \<Rightarrow>
          if \<not> resp_ok st then Inr (resp 502 (bad_gateway_body raw))
          else (case parsed of
                  None \<Rightarrow> Inl SyntaxError
                | Some data \<Rightarrow>
                    (case get_prop data ''offers'' of
                       Inl e \<Rightarrow> Inl e
                     | Inr ov \<Rightarrow>
                         (case js_or ov (JArr []) of
                            JArr offers \<Rightarrow> join_result now (promise_all (map (enrich_offer cfg up a) offers))
                          | _ \<Rightarrow> Inl TypeError))))"

text \<open>The \<open>catch (err)\<close> clause (lines 148--155).\<close>

definition catch_internal :: "config \<Rightarrow> js_error + response \<Rightarrow> response" where
  "catch_internal cfg r = (case r of Inl e \<Rightarrow> resp 500 (internal_error_body cfg e) | Inr x \<Rightarrow> x)"

definition offers_handler :: "config \<Rightarrow> upstream \<Rightarrow> string \<Rightarrow> query \<Rightarrow> js_error + response" where
  "offers_handler cfg up now q =
     (case validate_offers q of
        Inl e \<Rightarrow> Inl e
      | Inr StatusProbe \<Rightarrow> Inr (resp 200 probe_body)
      | Inr (BadAffiliate a) \<Rightarrow> Inr (resp 400 (bad_affiliate_body a))
      | Inr BadType \<Rightarrow> Inr (resp 400 bad_type_body)
      | Inr (Valid a t) \<Rightarrow> Inr (catch_internal cfg (offers_try cfg up now a t)))"

section \<open>Lemmas\<close>

lemma offers_handler_Valid:
  "validate_offers q = Inr (Valid a t) \<Longrightarrow>
     offers_handler cfg up now q = Inr (catch_internal cfg (offers_try cfg up now a t))"
  by (simp add: offers_handler_def)

lemma promise_all_enrich_ok:
  "JNull \<notin> set offers \<Longrightarrow>
     promise_all (map (enrich_offer cfg up a) offers)
       = Inr (map (\<lambda>x. detail_merge x (up (detail_call cfg (projr (get_prop x ''network_offer_id'')) a))) offers)"
proof (induction offers)
  case (Cons x xs)
  from Cons.prems have "x \<noteq> JNull" by auto
  then obtain r where "get_prop x ''network_offer_id'' = Inr r"
    by (blast dest: get_prop_not_null)
  with Cons show ?case by (simp add: enrich_offer_def)
qed simp

lemma promise_all_enrich_null:
  "JNull \<in> set offers \<Longrightarrow> promise_all (map (enrich_offer cfg up a) offers) = Inl TypeError"
proof -
  assume "JNull \<in> set offers"
  then have "Inl TypeError \<in> set (map (enrich_offer cfg up a) offers)"
    by (metis enrich_offer_null image_eqI set_map)
  then have "isl (promise_all (map (enrich_offer cfg up a) offers))"
    by (auto simp: promise_all_isl)
  then obtain e where e: "promise_all (map (enrich_offer cfg up a) offers) = Inl e"
    by (cases "promise_all (map (enrich_offer cfg up a) offers)") auto
  then have "Inl e \<in> set (map (enrich_offer cfg up a) offers)" by (rule promise_all_Inl)
  then have "e = TypeError" by (metis enrich_offer_Inl imageE set_map)
  with e show ?thesis by simp
qed

lemma offers_try_list_ok:
  assumes "up (list_call cfg a t) = Resp st raw (Some (JObj ps))" and "resp_ok st"
    and "map_of ps ''offers'' = Some (JArr offers)"
  shows "offers_try cfg up now a t = join_result now (promise_all (map (enrich_offer cfg up a) offers))"
  using assms by (simp add: offers_try_def js_or_def)

lemmas handler_simps [js_simps] = resp_def offers_handler_def catch_internal_def offers_try_def
  join_result_def

text \<open>
  C1. The success path: when the parameters are valid, the list call succeeds with an
  object whose \<open>offers\<close> is an array of non-null offers, the handler answers 200 with
  the success envelope whose \<open>offers\<close> holds, position by position, each offer merged
  with the outcome of its own detail call, and whose \<open>count\<close> is their number.
\<close>

theorem offers_handler_success:
  assumes "validate_offers q = Inr (Valid a t)"
    and "up (list_call cfg a t) = Resp st raw (Some (JObj ps))" and "resp_ok st"
    and "map_of ps ''offers'' = Some (JArr offers)" and "JNull \<notin> set offers"
  shows "offers_handler cfg up now q = Inr (resp 200 (success_body
           (map (\<lambda>x. detail_merge x (up (detail_call cfg (projr (get_prop x ''network_offer_id'')) a))) offers) now))"
  using assms
  by (simp add: offers_handler_Valid offers_try_list_ok promise_all_enrich_ok join_result_def
                catch_internal_def)

theorem offers_handler_success_witness:
  "offers_handler \<lparr>eflow_key = Some ''k'', backend_key = None, node_env = None\<rparr>
     (\<lambda>c. if call_url c = list_url (QStr ''af1'') None
          then Resp 200 ''{}'' (Some (JObj [(''offers'', JArr [JObj [(''network_offer_id'', JNum 7)]])]))
          else Resp 200 ''{}'' (Some (JObj [(''default_payout'', JNum 5), (''currency'', JStr ''USD'')])))
     ''2026-01-01T00:00:00.000Z'' [(''affiliate_id'', QStr ''af1'')]
   = Inr (resp 200 (success_body [JObj [(''network_offer_id'', JNum 7), (''default_payout'', JNum 5),
                                       (''currency'', JStr ''USD'')]] ''2026-01-01T00:00:00.000Z''))"
proof -
  let ?cfg = "\<lparr>eflow_key = Some ''k'', backend_key = None, node_env = None\<rparr>"
  let ?up = "\<lambda>c. if call_url c = list_url (QStr ''af1'') None
          then Resp 200 ''{}'' (Some (JObj [(''offers'', JArr [JObj [(''network_offer_id'', JNum 7)]])]))
          else Resp 200 ''{}'' (Some (JObj [(''default_payout'', JNum 5), (''currency'', JStr ''USD'')]))"
  have v: "validate_offers [(''affiliate_id'', QStr ''af1'')] = Inr (Valid (QStr ''af1'') None)"
    by (simp add: validate_offers_def q_truthy_def)
  have l: "?up (list_call ?cfg (QStr ''af1'') None)
             = Resp 200 ''{}'' (Some (JObj [(''offers'', JArr [JObj [(''network_offer_id'', JNum 7)]])]))"
    by (simp add: list_call_def)
  have ok: "resp_ok 200" by (simp add: resp_ok_def)
  have d: "call_url (detail_call ?cfg (Some (JNum 7)) (QStr ''af1'')) \<noteq> list_url (QStr ''af1'') None"
    by (simp add: detail_call_def detail_url_def list_url_def eflow_host_def js_str_def int_str_def
                  nat_str.simps digit_char_def)
  from offers_handler_success [where up = ?up and cfg = ?cfg and now = "''2026-01-01T00:00:00.000Z''"
      and offers = "[JObj [(''network_offer_id'', JNum 7)]]", OF v l ok] d show ?thesis
    by (simp add: detail_merge_def merge_detail_def resp_ok_def js_or_def)
qed

text \<open>
  C7. The status probe: a request without \<open>affiliate_id\<close>, or with an empty one,
  is answered 200 with the operational message, whatever its \<open>type\<close> and without
  calling the provider.
\<close>

theorem offers_handler_probe:
  assumes "map_of q ''affiliate_id'' = None \<or> map_of q ''affiliate_id'' = Some (QStr [])"
  shows "offers_handler cfg up now q = Inr (resp 200 probe_body)"
  using assms by (auto simp: offers_handler_def validate_offers_str)

theorem offers_handler_probe_witness:
  "offers_handler \<lparr>eflow_key = None, backend_key = None, node_env = None\<rparr> (\<lambda>c. Rejected (FetchFailed ''down'')) ''now'' [(''type'', QStr ''bogus'')] = Inr (resp 200 probe_body)"
  by (rule offers_handler_probe) simp

text \<open>
  C8. An \<open>affiliate_id\<close> string containing \<open>{\<close> is rejected with 400 and the
  invalid-affiliate body that echoes the value received.
\<close>

theorem offers_handler_bad_affiliate:
  assumes "map_of q ''affiliate_id'' = Some (QStr s)" and "CHR ''{'' \<in> set s"
  shows "offers_handler cfg up now q = Inr (resp 400 (bad_affiliate_body (QStr s)))"
  using assms by (auto simp: offers_handler_def validate_offers_str)

theorem offers_handler_bad_affiliate_witness:
  "offers_handler \<lparr>eflow_key = None, backend_key = None, node_env = None\<rparr> (\<lambda>c. Rejected (FetchFailed ''down'')) ''now'' [(''affiliate_id'', QStr ''{affiliate_id}'')]
     = Inr (resp 400 (bad_affiliate_body (QStr ''{affiliate_id}'')))"
  by (rule offers_handler_bad_affiliate) simp_all

text \<open>
  C9. A present, non-empty \<open>type\<close> other than \<open>top\<close> and \<open>latest\<close> (including an
  array of them) is rejected with 400 and the invalid-type body, once the affiliate id
  has passed its checks.
\<close>

theorem offers_handler_bad_type:
  assumes "map_of q ''affiliate_id'' = Some (QStr s)" and "s \<noteq> []" and "CHR ''{'' \<notin> set s"
    and "map_of q ''type'' = Some v" and "v \<notin> {QStr [], QStr ''top'', QStr ''latest''}"
  shows "offers_handler cfg up now q = Inr (resp 400 bad_type_body)"
proof -
  from assms(4,5) have "q_truthy (map_of q ''type'') \<and> \<not> valid_type (map_of q ''type'')"
    by (cases v) (auto simp: q_truthy_def valid_type_def)
  with assms(1-3) show ?thesis by (simp add: offers_handler_def validate_offers_str)
qed

theorem offers_handler_bad_type_witness:
  "offers_handler \<lparr>eflow_key = None, backend_key = None, node_env = None\<rparr> (\<lambda>c. Rejected (FetchFailed ''down'')) ''now'' [(''affiliate_id'', QStr ''af123''), (''type'', QStr ''newest'')]
     = Inr (resp 400 bad_type_body)"
  by (rule offers_handler_bad_type [where s = "''af123''" and v = "QStr ''newest''"]) simp_all

text \<open>
  C10. A list call answered with a status outside 200--299 is reported as 502 Bad
  Gateway carrying the provider's raw body text; no retry.
\<close>

theorem offers_handler_bad_gateway:
  assumes "validate_offers q = Inr (Valid a t)"
    and "up (list_call cfg a t) = Resp st raw b" and "\<not> resp_ok st"
  shows "offers_handler cfg up now q = Inr (resp 502 (bad_gateway_body raw))"
  using assms by (simp add: offers_handler_Valid offers_try_def catch_internal_def)

theorem offers_handler_bad_gateway_witness:
  "offers_handler \<lparr>eflow_key = None, backend_key = None, node_env = None\<rparr> (\<lambda>c. Resp 500 ''upstream down'' None) ''now'' [(''affiliate_id'', QStr ''af1'')]
     = Inr (resp 502 (bad_gateway_body ''upstream down''))"
proof -
  have v: "validate_offers [(''affiliate_id'', QStr ''af1'')] = Inr (Valid (QStr ''af1'') None)"
    by (simp add: validate_offers_def q_truthy_def)
  have nok: "\<not> resp_ok 500" by (simp add: resp_ok_def)
  show ?thesis
    by (rule offers_handler_bad_gateway [where raw = "''upstream down''" and b = None, OF v _ nok]) simp
qed

text \<open>
  C13. One \<open>null\<close> entry in the provider's offer list fails the whole request: its
  callback reads \<open>offer.network_offer_id\<close> outside the \<open>try\<close>, \<open>Promise.all\<close>
  rejects with the \<open>TypeError\<close>, and the handler answers 500, whatever the other
  offers and their detail calls.
\<close>

theorem offers_handler_null_offer:
  assumes "validate_offers q = Inr (Valid a t)"
    and "up (list_call cfg a t) = Resp st raw (Some (JObj ps))" and "resp_ok st"
    and "map_of ps ''offers'' = Some (JArr offers)" and "JNull \<in> set offers"
  shows "offers_handler cfg up now q = Inr (resp 500 (internal_error_body cfg TypeError))"
  using assms
  by (simp add: offers_handler_Valid offers_try_list_ok promise_all_enrich_null join_result_def
                catch_internal_def)

theorem offers_handler_null_offer_witness:
  "offers_handler \<lparr>eflow_key = None, backend_key = None, node_env = None\<rparr> (\<lambda>c. Resp 200 ''{}'' (Some (JObj [(''offers'', JArr [JObj [], JNull])])))
     ''now'' [(''affiliate_id'', QStr ''af1'')]
   = Inr (resp 500 (internal_error_body \<lparr>eflow_key = None, backend_key = None, node_env = None\<rparr> TypeError))"
proof -
  have v: "validate_offers [(''affiliate_id'', QStr ''af1'')] = Inr (Valid (QStr ''af1'') None)"
    by (simp add: validate_offers_def q_truthy_def)
  have ok: "resp_ok 200" by (simp add: resp_ok_def)
  show ?thesis
    by (rule offers_handler_null_offer [where raw = "''{}''"
          and ps = "[(''offers'', JArr [JObj [], JNull])]" and offers = "[JObj [], JNull]", OF v _ ok]) simp_all
qed

text \<open>
  C20. A rejected list call (network error, abort, timeout) is caught and answered
  500; the body carries the error's description only when \<open>NODE_ENV\<close> is
  \<open>development\<close>.
\<close>

theorem offers_handler_list_rejected:
  assumes "validate_offers q = Inr (Valid a t)" and "up (list_call cfg a t) = Rejected e"
  shows "offers_handler cfg up now q = Inr (resp 500 (internal_error_body cfg e))
         \<and> (node_env cfg \<noteq> Some ''development'' \<longrightarrow>
              internal_error_body cfg e = JObj [(''error'', JStr ''Internal Server Error''),
                                                (''message'', JStr ''An unexpected error occurred'')])"
  using assms
  by (simp add: offers_handler_Valid offers_try_def catch_internal_def internal_error_body_def)

theorem offers_handler_list_rejected_witness:
  "offers_handler \<lparr>eflow_key = None, backend_key = None, node_env = Some ''production''\<rparr>
     (\<lambda>c. Rejected (FetchFailed ''ETIMEDOUT'')) ''now'' [(''affiliate_id'', QStr ''af1'')]
   = Inr (resp 500 (JObj [(''error'', JStr ''Internal Server Error''),
                          (''message'', JStr ''An unexpected error occurred'')]))"
proof -
  have "validate_offers [(''affiliate_id'', QStr ''af1'')] = Inr (Valid (QStr ''af1'') None)"
    by (simp add: validate_offers_def q_truthy_def)
  from offers_handler_list_rejected [OF this, where up = "\<lambda>c. Rejected (FetchFailed ''ETIMEDOUT'')"
      and cfg = "\<lparr>eflow_key = None, backend_key = None, node_env = Some ''production''\<rparr>"
      and e = "FetchFailed ''ETIMEDOUT''"]
  show ?thesis by simp
qed

text \<open>
  C21. An \<open>affiliate_id\<close> written with brackets (\<open>?affiliate_id[k]=v\<close>) is an
  object: \<open>affiliate_id.includes\<close> is not a function, the \<open>TypeError\<close> is thrown
  before the \<open>try\<close>, and it escapes the async handler instead of producing the 500
  response the spec promises for unexpected exceptions.
\<close>

theorem offers_handler_object_affiliate:
  assumes "map_of q ''affiliate_id'' = Some (QObj kvs)"
  shows "offers_handler cfg up now q = Inl TypeError"
proof -
  have "validate_offers q = Inl TypeError"
    using assms by (simp add: validate_offers_Inl)
  then show ?thesis by (simp add: offers_handler_def)
qed

theorem offers_handler_object_affiliate_witness:
  "offers_handler \<lparr>eflow_key = None, backend_key = None, node_env = None\<rparr> (\<lambda>c. Rejected (FetchFailed ''down'')) ''now'' [(''affiliate_id'', QObj [(''k'', ''v'')])] = Inl TypeError"
  by (rule offers_handler_object_affiliate) simp

end
