(* ===== verification/App.thy ===== *)
theory App
  imports Handler
begin

text \<open>
  The Express application of \<open>src/index.js\<close> as a function from a request to its
  outcome: the middleware stack in registration order (lines 23--25), the routes
  (\<open>/health\<close>, lines 32--40; \<open>/partner-dashboard/offers\<close>, lines 46--156), the 404
  handler (lines 163--168) and the global error handler (lines 171--177). The
  framework's behaviour that the outcome depends on is written out: \<open>app.get\<close>
  serves \<open>GET\<close> and \<open>HEAD\<close>; a route path matches case-insensitively with an
  optional trailing slash (Express 4's \<open>path-to-regexp\<close> with \<open>strict\<close> and
  \<open>caseSensitive\<close> off); the \<open>cors\<close> middleware ends every \<open>OPTIONS\<close> request
  with 204; a body that \<open>express.json()\<close> cannot parse skips the routes and the 404
  handler and reaches the error handler; and, in Express 4, a promise rejected by an
  async route handler is not observed, so no response is sent (\<open>Hangs\<close>; under
  Node 15 and later the unhandled rejection also terminates the process).
  Headers, and the body of a \<open>HEAD\<close> response that the transport drops, are not
  modelled. \<open>error_shaped\<close> is the spec's error contract, against which every
  response of the application is checked.
\<close>

record request =
  req_method :: string
  req_path :: string
  req_query :: query
  req_headers :: "(string \<times> string) list"  \<comment> \<open>lower-case names, as Node stores them\<close>
  body_malformed :: bool                  \<comment> \<open>a JSON body \<open>express.json()\<close> rejects\<close>

datatype app_result = Responded response | Hangs

definition route_matches :: "string \<Rightarrow> string \<Rightarrow> bool" where
  "route_matches route p \<longleftrightarrow> lower p = lower route \<or> lower p = lower route @ ''/''"

definition get_like :: "request \<Rightarrow> bool" where
  "get_like req \<longleftrightarrow> req_method req = ''GET'' \<or> req_method req = ''HEAD''"

definition health_body :: "string \<Rightarrow> json \<Rightarrow> json" where
  "health_body now uptime =
     JObj [(''status'', JStr ''healthy''), (''timestamp'', JStr now), (''uptime'', uptime),
           (''database'', JStr ''connected''), (''everflow_api'', JStr ''reachable'')]"

definition not_found_body :: "string \<Rightarrow> json" where
  "not_found_body p =
     JObj [(''error'', JStr ''Not Found''),
           (''message'', JStr (''The requested resource '' @ p @ '' was not found''))]"

definition global_error_body :: json where
  "global_error_body = JObj [(''error'', JStr ''Internal Server Error''),
                             (''message'', JStr ''An unexpected error occurred'')]"

text \<open>
  The error contract of spec section 7: a failure body is an object with string
  \<open>error\<close> and \<open>message\<close> fields.
\<close>

fun error_shaped :: "json \<Rightarrow> bool" where
  "error_shaped (JObj ps) =
     ((case map_of ps ''error'' of Some (JStr _) \<Rightarrow> True | _ \<Rightarrow> False)
      \<and> (case map_of ps ''message'' of Some (JStr _) \<Rightarrow> True | _ \<Rightarrow> False))"
| "error_shaped _ = False"

definition index_app :: "config \<Rightarrow> upstream \<Rightarrow> string \<Rightarrow> json \<Rightarrow> request \<Rightarrow> app_result" where
  "index_app cfg up now uptime req =
     (if req_method req = ''OPTIONS'' then Responded (resp 204 (JStr []))
      else if body_malformed req then Responded (resp 500 global_error_body)
      else if get_like req \<and> route_matches ''/health'' (req_path req)
        then Responded (resp 200 (health_body now uptime))
      else if get_like req \<and> route_matches ''/partner-dashboard/offers'' (req_path req)
        then (case offers_handler cfg up now (req_query req) of Inl _ \<Rightarrow> Hangs | Inr r \<Rightarrow> Responded r)
      else Responded (resp 404 (not_found_body (req_path req))))"

section \<open>Lemmas\<close>

lemma offers_try_Inr:
  "offers_try cfg up now a t = Inr r \<Longrightarrow>
     (\<exists>raw. r = resp 502 (bad_gateway_body raw)) \<or> (\<exists>eo. r = resp 200 (success_body eo now))"
  by (auto simp: offers_try_def join_result_def
           split: fetch_outcome.splits if_splits option.splits sum.splits json.splits)

lemma offers_handler_Inr:
  "offers_handler cfg up now q = Inr r \<Longrightarrow>
     r = resp 200 probe_body \<or> (\<exists>a. r = resp 400 (bad_affiliate_body a)) \<or> r = resp 400 bad_type_body
     \<or> (\<exists>e. r = resp 500 (internal_error_body cfg e)) \<or> (\<exists>raw. r = resp 502 (bad_gateway_body raw))
     \<or> (\<exists>eo. r = resp 200 (success_body eo now))"
  by (auto simp: offers_handler_def catch_internal_def split: sum.splits validation.splits
           dest!: offers_try_Inr)

lemma index_app_Responded:
  "index_app cfg up now uptime req = Responded r \<Longrightarrow>
     r = resp 204 (JStr []) \<or> r = resp 500 global_error_body \<or> r = resp 200 (health_body now uptime)
     \<or> r = resp 404 (not_found_body (req_path req)) \<or> offers_handler cfg up now (req_query req) = Inr r"
  by (auto simp: index_app_def split: if_splits sum.splits)

lemma error_shaped_bodies:
  "error_shaped (bad_affiliate_body a)" "error_shaped bad_type_body" "error_shaped (bad_gateway_body raw)"
  "error_shaped (internal_error_body cfg e)" "error_shaped (not_found_body p)" "error_shaped global_error_body"
  by (simp_all add: bad_affiliate_body_def bad_type_body_def bad_gateway_body_def internal_error_body_def
                    not_found_body_def global_error_body_def map_of_append)

lemma index_app_offers:
  "req_method req \<noteq> ''OPTIONS'' \<Longrightarrow> \<not> body_malformed req \<Longrightarrow> get_like req
   \<Longrightarrow> route_matches ''/partner-dashboard/offers'' (req_path req)
   \<Longrightarrow> index_app cfg up now uptime req
         = (case offers_handler cfg up now (req_query req) of Inl _ \<Rightarrow> Hangs | Inr r \<Rightarrow> Responded r)"
proof -
  assume "route_matches ''/partner-dashboard/offers'' (req_path req)"
  then have "\<not> route_matches ''/health'' (req_path req)"
    by (auto simp: route_matches_def lower_def lower_char_def Let_def)
  then show "req_method req \<noteq> ''OPTIONS'' \<Longrightarrow> \<not> body_malformed req \<Longrightarrow> get_like req \<Longrightarrow> ?thesis"
    using \<open>route_matches ''/partner-dashboard/offers'' (req_path req)\<close> by (simp add: index_app_def)
qed

text \<open>
  C22. Unmatched requests: a request that is not a preflight, has no malformed body
  and is not a \<open>GET\<close>/\<open>HEAD\<close> of \<open>/health\<close> or of the offers route is answered 404
  with the message naming its path.
\<close>

theorem index_app_not_found:
  assumes "req_method req \<noteq> ''OPTIONS''" and "\<not> body_malformed req"
    and "\<not> (get_like req \<and> route_matches ''/health'' (req_path req))"
    and "\<not> (get_like req \<and> route_matches ''/partner-dashboard/offers'' (req_path req))"
  shows "index_app cfg up now uptime req = Responded (resp 404 (not_found_body (req_path req)))"
  using assms by (auto simp: index_app_def)

theorem index_app_not_found_witness:
  "index_app \<lparr>eflow_key = None, backend_key = None, node_env = None\<rparr> (\<lambda>c. Rejected (FetchFailed ''down''))
     ''now'' (JNum 1)
     \<lparr>req_method = ''POST'', req_path = ''/partner-dashboard/offers'', req_query = [], req_headers = [],
      body_malformed = False\<rparr>
   = Responded (resp 404 (not_found_body ''/partner-dashboard/offers''))"
  by (rule index_app_not_found [where req = "\<lparr>req_method = ''POST'', req_path = ''/partner-dashboard/offers'',
        req_query = [], req_headers = [], body_malformed = False\<rparr>", simplified]) (simp_all add: get_like_def)

text \<open>
  C23. Route matching is case-insensitive and tolerates one trailing slash: a
  \<open>GET\<close> or \<open>HEAD\<close> of \<open>/Partner-Dashboard/OFFERS/\<close> is served by the offers
  handler, whose exception, if it throws, leaves the request without a response.
\<close>

theorem index_app_offers_route:
  assumes "req_method req = ''GET'' \<or> req_method req = ''HEAD''" and "\<not> body_malformed req"
    and "lower (req_path req) = ''/partner-dashboard/offers'' \<or> lower (req_path req) = ''/partner-dashboard/offers/''"
  shows "index_app cfg up now uptime req
           = (case offers_handler cfg up now (req_query req) of Inl _ \<Rightarrow> Hangs | Inr r \<Rightarrow> Responded r)"
proof -
  have "route_matches ''/partner-dashboard/offers'' (req_path req)"
    using assms(3) by (auto simp: route_matches_def lower_def lower_char_def Let_def)
  moreover have "req_method req \<noteq> ''OPTIONS''" and "get_like req"
    using assms(1) by (auto simp: get_like_def)
  ultimately show ?thesis using assms(2) by (simp add: index_app_offers)
qed

theorem index_app_offers_route_witness:
  "index_app \<lparr>eflow_key = None, backend_key = None, node_env = None\<rparr> (\<lambda>c. Rejected (FetchFailed ''down''))
     ''now'' (JNum 1)
     \<lparr>req_method = ''HEAD'', req_path = ''/Partner-Dashboard/OFFERS/'', req_query = [], req_headers = [],
      body_malformed = False\<rparr>
   = Responded (resp 200 probe_body)"
proof -
  let ?req = "\<lparr>req_method = ''HEAD'', req_path = ''/Partner-Dashboard/OFFERS/'', req_query = [], req_headers = [],
      body_malformed = False\<rparr>"
  have l: "lower ''/Partner-Dashboard/OFFERS/'' = ''/partner-dashboard/offers/''"
    by code_simp
  have "index_app \<lparr>eflow_key = None, backend_key = None, node_env = None\<rparr> (\<lambda>c. Rejected (FetchFailed ''down''))
     ''now'' (JNum 1) ?req = (case offers_handler \<lparr>eflow_key = None, backend_key = None, node_env = None\<rparr>
        (\<lambda>c. Rejected (FetchFailed ''down'')) ''now'' (req_query ?req) of Inl _ \<Rightarrow> Hangs | Inr r \<Rightarrow> Responded r)"
    by (rule index_app_offers_route) (simp_all add: l)
  then show ?thesis by (simp add: offers_handler_def)
qed

text \<open>
  C24. A request whose JSON body cannot be parsed never reaches a route or the 404
  handler: the global error handler answers 500 with its generic body, whatever the
  path.
\<close>

theorem index_app_malformed_body:
  assumes "req_method req \<noteq> ''OPTIONS''" and "body_malformed req"
  shows "index_app cfg up now uptime req = Responded (resp 500 global_error_body)"
  using assms by (simp add: index_app_def)

theorem index_app_malformed_body_witness:
  "index_app \<lparr>eflow_key = None, backend_key = None, node_env = None\<rparr> (\<lambda>c. Rejected (FetchFailed ''down''))
     ''now'' (JNum 1)
     \<lparr>req_method = ''GET'', req_path = ''/health'', req_query = [], req_headers = [], body_malformed = True\<rparr>
   = Responded (resp 500 global_error_body)"
  by (rule index_app_malformed_body) simp_all

text \<open>
  C25. With a bracketed \<open>affiliate_id\<close> the offers route sends no response at all:
  the handler's \<open>TypeError\<close> rejects its promise, which Express 4 does not observe
  (spec section 6 promises a 500 for unhandled exceptions).
\<close>

theorem index_app_object_affiliate_hangs:
  assumes "req_method req = ''GET''" and "\<not> body_malformed req"
    and "req_path req = ''/partner-dashboard/offers''"
    and "map_of (req_query req) ''affiliate_id'' = Some (QObj kvs)"
  shows "index_app cfg up now uptime req = Hangs"
proof -
  have "validate_offers (req_query req) = Inl TypeError"
    using assms(4) by (simp add: validate_offers_Inl)
  then have "offers_handler cfg up now (req_query req) = Inl TypeError"
    by (simp add: offers_handler_def)
  moreover have "route_matches ''/partner-dashboard/offers'' (req_path req)"
    using assms(3) by (simp add: route_matches_def)
  ultimately show ?thesis
    using assms(1,2) by (simp add: index_app_offers get_like_def)
qed

theorem index_app_object_affiliate_hangs_witness:
  "index_app \<lparr>eflow_key = None, backend_key = None, node_env = None\<rparr> (\<lambda>c. Rejected (FetchFailed ''down''))
     ''now'' (JNum 1)
     \<lparr>req_method = ''GET'', req_path = ''/partner-dashboard/offers'',
      req_query = [(''affiliate_id'', QObj [(''x'', ''1'')])], req_headers = [], body_malformed = False\<rparr>
   = Hangs"
  by (rule index_app_object_affiliate_hangs) simp_all



text \<open>
  C36. The error contract of spec section 7 holds for \<open>index.js\<close>: every response
  the application sends with a status of 400 or more has a body with string
  \<open>error\<close> and \<open>message\<close> fields.
\<close>

theorem index_app_error_bodies:
  assumes "index_app cfg up now uptime req = Responded r" and "400 \<le> status r"
  shows "error_shaped (body r)"
  using index_app_Responded [OF assms(1)] offers_handler_Inr [of cfg up now "req_query req" r] assms(2)
  by (auto simp: resp_def error_shaped_bodies)

theorem index_app_error_bodies_witness:
  "index_app \<lparr>eflow_key = None, backend_key = None, node_env = None\<rparr> (\<lambda>c. Rejected (FetchFailed ''down''))
     ''now'' (JNum 1)
     \<lparr>req_method = ''POST'', req_path = ''/health'', req_query = [], req_headers = [], body_malformed = False\<rparr>
   = Responded (resp 404 (not_found_body ''/health''))
   \<and> error_shaped (not_found_body ''/health'')"
proof -
  have a: "index_app \<lparr>eflow_key = None, backend_key = None, node_env = None\<rparr> (\<lambda>c. Rejected (FetchFailed ''down''))
     ''now'' (JNum 1)
     \<lparr>req_method = ''POST'', req_path = ''/health'', req_query = [], req_headers = [], body_malformed = False\<rparr>
   = Responded (resp 404 (not_found_body ''/health''))"
    by (simp add: index_app_def get_like_def)
  with index_app_error_bodies [OF a] show ?thesis by (simp add: resp_def)
qed



end
