(* ===== verification/Internal.thy ===== *)
theory Internal
  imports App
begin

text \<open>
  The internal variant of the relay, \<open>src/unnamed/part_000\<close>. It shares the upstream
  URLs, the key header and the detail merge with \<open>src/index.js\<close>, and differs in the
  rest: a middleware (lines 22--30) refuses requests whose path starts with
  \<open>/partner-dashboard/offers\<close> unless the \<open>x-api-key\<close> header equals
  \<open>BACKEND_API_KEY\<close>; the handler (lines 32--93) has no type check, no status
  probe, no timeouts, passes a failed list call's status through, answers
  \<open>{offers}\<close> without an envelope, and has no 404 or error handler of its own, so
  Express's default 404 (a page \<open>Cannot METHOD path\<close>, represented here by that
  text) answers unknown routes. There is no \<open>express.json()\<close> in this variant.
\<close>

section \<open>The handler\<close>

text \<open>The fetch calls of lines 48--53 and 68--73: same URL and key, no timeout.\<close>

definition internal_list_call :: "config \<Rightarrow> qval \<Rightarrow> qval option \<Rightarrow> upstream_call" where
  "internal_list_call cfg a t = \<lparr>call_url = list_url a t, call_key = key_header cfg, call_timeout = None\<rparr>"

definition internal_detail_call :: "config \<Rightarrow> json option \<Rightarrow> qval \<Rightarrow> upstream_call" where
  "internal_detail_call cfg oid a = \<lparr>call_url = detail_url oid a, call_key = key_header cfg, call_timeout = None\<rparr>"

text \<open>The callback of lines 64--86; its \<open>try\<close> block is the one of \<open>index.js\<close>.\<close>

definition internal_enrich_offer :: "config \<Rightarrow> upstream \<Rightarrow> qval \<Rightarrow> json \<Rightarrow> js_error + json" where
  "internal_enrich_offer cfg up a offer =
     (case get_prop offer ''network_offer_id'' of
        Inl e \<Rightarrow> Inl e
      | Inr oid \<Rightarrow> Inr (detail_merge offer (up (internal_detail_call cfg oid a))))"

text \<open>
  The same callback against a provider that may never answer (\<open>None\<close>): its
  promise then never settles, since the call carries no timeout.
\<close>

definition internal_enrich_pending ::
  "config \<Rightarrow> (upstream_call \<Rightarrow> fetch_outcome option) \<Rightarrow> qval \<Rightarrow> json \<Rightarrow> (js_error + json) option" where
  "internal_enrich_pending cfg up a offer =
     (case get_prop offer ''network_offer_id'' of
        Inl e \<Rightarrow> Some (Inl e)
      | Inr oid \<Rightarrow> map_option (\<lambda>r. Inr (detail_merge offer r)) (up (internal_detail_call cfg oid a)))"

text \<open>
  Lines 33--37: \<open>!affiliate_id || affiliate_id.includes('{')\<close>. The result is the
  parameters the pipeline runs on, \<open>None\<close> for the 400 answer, or the exception of
  \<open>includes\<close> on an object.
\<close>

definition internal_validate :: "query \<Rightarrow> js_error + (qval \<times> qval option) option" where
  "internal_validate q =
     (case map_of q ''affiliate_id'' of
        None \<Rightarrow> Inr None
      | Some a \<Rightarrow>
          if \<not> q_truthy (Some a) then Inr None
          else (case q_includes a ''{'' of
                  Inl e \<Rightarrow> Inl e
                | Inr True \<Rightarrow> Inr None
                | Inr False \<Rightarrow> Inr (Some (a, map_of q ''type''))))"

definition internal_bad_affiliate_body :: json where
  "internal_bad_affiliate_body = JObj [(''error'', JStr ''Valid affiliate_id is required'')]"

definition upstream_failed_body :: "string \<Rightarrow> json" where
  "upstream_failed_body raw = JObj [(''error'', JStr ''Everflow API request failed''), (''details'', JStr raw)]"

definition internal_error_generic :: json where
  "internal_error_generic = JObj [(''error'', JStr ''Internal server error'')]"

text \<open>The \<open>try\<close> block of lines 47--89.\<close>

definition internal_try :: "config \<Rightarrow> upstream \<Rightarrow> qval \<Rightarrow> qval option \<Rightarrow> js_error + response" where
  "internal_try cfg up a t =
     (case up (internal_list_call cfg a t) of
        Rejected e \<Rightarrow> Inl e
      | Resp st raw parsed \<Rightarrow>
          if \<not> resp_ok st then Inr (resp st (upstream_failed_body raw))
          else (case parsed of
                  None \<Rightarrow> Inl SyntaxError
                | Some data \<Rightarrow>
                    (case get_prop data ''offers'' of
                       Inl e \<Rightarrow> Inl e
                     | Inr ov \<Rightarrow>
                         (case js_or ov (JArr []) of
                            JArr offers \<Rightarrow>
                              (case promise_all (map (internal_enrich_offer cfg up a) offers) of
                                 Inl e \<Rightarrow> Inl e
                               | Inr eo \<Rightarrow> Inr (resp 200 (JObj [(''offers'', JArr eo)])))
                          | _ \<Rightarrow> Inl TypeError))))"

definition internal_handler :: "config \<Rightarrow> upstream \<Rightarrow> query \<Rightarrow> js_error + response" where
  "internal_handler cfg up q =
     (case internal_validate q of
        Inl e \<Rightarrow> Inl e
      | Inr None \<Rightarrow> Inr (resp 400 internal_bad_affiliate_body)
      | Inr (Some (a, t)) \<Rightarrow>
          Inr (case internal_try cfg up a t of Inl _ \<Rightarrow> resp 500 internal_error_generic | Inr r \<Rightarrow> r))"

section \<open>The application\<close>

text \<open>
  Lines 24--25: the header's value is read, and a missing or empty key, or one that
  differs from \<open>BACKEND_API_KEY\<close> (always, when that is unset), is refused.
\<close>

definition api_key_ok :: "config \<Rightarrow> request \<Rightarrow> bool" where
  "api_key_ok cfg req =
     (case map_of (req_headers req) ''x-api-key'' of
        None \<Rightarrow> False
      | Some k \<Rightarrow> k \<noteq> [] \<and> backend_key cfg = Some k)"

definition unauthorized_body :: json where
  "unauthorized_body = JObj [(''error'', JStr ''Unauthorized'')]"

text \<open>The middleware of lines 22--30: a response, or \<open>None\<close> for \<open>next()\<close>.\<close>

definition api_key_guard :: "config \<Rightarrow> request \<Rightarrow> response option" where
  "api_key_guard cfg req =
     (if starts_with (req_path req) ''/partner-dashboard/offers'' \<and> \<not> api_key_ok cfg req
      then Some (resp 403 unauthorized_body) else None)"

definition express_not_found :: "request \<Rightarrow> json" where
  "express_not_found req = JStr (''Cannot '' @ req_method req @ '' '' @ req_path req)"

definition internal_app :: "config \<Rightarrow> upstream \<Rightarrow> request \<Rightarrow> app_result" where
  "internal_app cfg up req =
     (if req_method req = ''OPTIONS'' then Responded (resp 204 (JStr []))
      else (case api_key_guard cfg req of
              Some r \<Rightarrow> Responded r
            | None \<Rightarrow>
                if get_like req \<and> route_matches ''/partner-dashboard/offers'' (req_path req)
                then (case internal_handler cfg up (req_query req) of Inl _ \<Rightarrow> Hangs | Inr r \<Rightarrow> Responded r)
                else Responded (resp 404 (express_not_found req))))"

section \<open>Lemmas\<close>

lemma map_of_filter_key:
  "map_of [(k, v) \<leftarrow> q. k \<noteq> x] y = (if y = x then None else map_of q y)"
  by (induction q) auto

lemma internal_validate_str:
  "map_of q ''affiliate_id'' = Some (QStr s) \<Longrightarrow>
     internal_validate q =
       (if s = [] \<or> CHR ''{'' \<in> set s then Inr None else Inr (Some (QStr s, map_of q ''type'')))"
  by (simp add: internal_validate_def q_truthy_def)

lemma internal_try_untyped:
  "\<not> valid_type t \<Longrightarrow> internal_try cfg up a t = internal_try cfg up a None"
  by (simp add: internal_try_def internal_list_call_def list_url_def sort_clause_def valid_type_def)

lemma promise_all_internal_enrich_ok:
  "JNull \<notin> set offers \<Longrightarrow>
     promise_all (map (internal_enrich_offer cfg up a) offers)
       = Inr (map (\<lambda>x. detail_merge x (up (internal_detail_call cfg (projr (get_prop x ''network_offer_id'')) a))) offers)"
proof (induction offers)
  case (Cons x xs)
  from Cons.prems have "x \<noteq> JNull" by auto
  then obtain r where "get_prop x ''network_offer_id'' = Inr r"
    by (blast dest: get_prop_not_null)
  with Cons show ?case by (simp add: internal_enrich_offer_def)
qed simp

lemma internal_enrich_pending_total:
  "internal_enrich_pending cfg (\<lambda>c. Some (up c)) a offer = Some (internal_enrich_offer cfg up a offer)"
  by (simp add: internal_enrich_pending_def internal_enrich_offer_def split: sum.split)

lemma internal_enrich_pending_outcome:
  "offer \<noteq> JNull \<Longrightarrow>
     internal_enrich_pending cfg up a offer
       = map_option (\<lambda>r. Inr (detail_merge offer r))
           (up (internal_detail_call cfg (projr (get_prop offer ''network_offer_id'')) a))"
  by (auto simp: internal_enrich_pending_def dest: get_prop_not_null [of offer "''network_offer_id''"])

lemma internal_try_body:
  "internal_try cfg up a t = Inr r \<Longrightarrow>
     (\<exists>st raw. r = resp st (upstream_failed_body raw)) \<or> (\<exists>eo. r = resp 200 (JObj [(''offers'', JArr eo)]))"
  by (auto simp: internal_try_def split: fetch_outcome.splits if_splits option.splits sum.splits json.splits)

lemma internal_handler_not_unauthorized:
  "internal_handler cfg up q = Inr r \<Longrightarrow> r \<noteq> resp 403 unauthorized_body"
  by (auto simp: internal_handler_def resp_def unauthorized_body_def internal_bad_affiliate_body_def
                 internal_error_generic_def upstream_failed_body_def
           split: sum.splits option.splits dest!: internal_try_body)

lemma internal_app_passes:
  "req_method req \<noteq> ''OPTIONS'' \<Longrightarrow> api_key_guard cfg req = None \<Longrightarrow> get_like req
   \<Longrightarrow> route_matches ''/partner-dashboard/offers'' (req_path req)
   \<Longrightarrow> internal_app cfg up req
         = (case internal_handler cfg up (req_query req) of Inl _ \<Rightarrow> Hangs | Inr r \<Rightarrow> Responded r)"
  by (simp add: internal_app_def)

text \<open>
  C27. The key check is case-sensitive while routing is not: a \<open>GET\<close> of a path that
  the offers route matches but that does not start with the lower-case prefix (such as
  \<open>/PARTNER-DASHBOARD/OFFERS\<close>) reaches the handler whatever the headers and the
  configured key.
\<close>

theorem internal_app_auth_case_bypass:
  assumes "req_method req = ''GET''"
    and "route_matches ''/partner-dashboard/offers'' (req_path req)"
    and "\<not> starts_with (req_path req) ''/partner-dashboard/offers''"
  shows "internal_app cfg up req
           = (case internal_handler cfg up (req_query req) of Inl _ \<Rightarrow> Hangs | Inr r \<Rightarrow> Responded r)"
  using assms by (simp add: internal_app_def api_key_guard_def get_like_def)

theorem internal_app_auth_case_bypass_witness:
  "internal_app \<lparr>eflow_key = Some ''k'', backend_key = Some ''secret'', node_env = None\<rparr>
     (\<lambda>c. Resp 200 ''{}'' (Some (JObj [(''offers'', JArr [])])))
     \<lparr>req_method = ''GET'', req_path = ''/PARTNER-DASHBOARD/OFFERS'',
      req_query = [(''affiliate_id'', QStr ''af1'')], req_headers = [], body_malformed = False\<rparr>
   = Responded (resp 200 (JObj [(''offers'', JArr [])]))"
proof -
  let ?req = "\<lparr>req_method = ''GET'', req_path = ''/PARTNER-DASHBOARD/OFFERS'',
      req_query = [(''affiliate_id'', QStr ''af1'')], req_headers = [], body_malformed = False\<rparr>"
  have l: "lower ''/PARTNER-DASHBOARD/OFFERS'' = ''/partner-dashboard/offers''"
    by code_simp
  have r: "lower ''/partner-dashboard/offers'' = ''/partner-dashboard/offers''"
    by code_simp
  have "internal_app \<lparr>eflow_key = Some ''k'', backend_key = Some ''secret'', node_env = None\<rparr>
     (\<lambda>c. Resp 200 ''{}'' (Some (JObj [(''offers'', JArr [])]))) ?req
     = (case internal_handler \<lparr>eflow_key = Some ''k'', backend_key = Some ''secret'', node_env = None\<rparr>
          (\<lambda>c. Resp 200 ''{}'' (Some (JObj [(''offers'', JArr [])]))) (req_query ?req) of
          Inl _ \<Rightarrow> Hangs | Inr r \<Rightarrow> Responded r)"
    by (rule internal_app_auth_case_bypass) (simp_all add: route_matches_def l r starts_with_def)
  then show ?thesis
    by (simp add: internal_handler_def internal_validate_str internal_try_def resp_ok_def js_or_def)
qed

text \<open>
  C28. On a path under \<open>/partner-dashboard/offers\<close> every request but a preflight is
  answered 403 \<open>Unauthorized\<close> exactly when its \<open>x-api-key\<close> header is missing,
  empty or different from the configured \<open>BACKEND_API_KEY\<close>; no response of the
  handler or of the 404 page is mistaken for it.
\<close>

theorem internal_app_unauthorized_iff:
  assumes "req_method req \<noteq> ''OPTIONS''" and "starts_with (req_path req) ''/partner-dashboard/offers''"
  shows "internal_app cfg up req = Responded (resp 403 unauthorized_body)
         \<longleftrightarrow> \<not> (\<exists>k. k \<noteq> [] \<and> map_of (req_headers req) ''x-api-key'' = Some k \<and> backend_key cfg = Some k)"
proof -
  have ok: "api_key_ok cfg req
      \<longleftrightarrow> (\<exists>k. k \<noteq> [] \<and> map_of (req_headers req) ''x-api-key'' = Some k \<and> backend_key cfg = Some k)"
    by (auto simp: api_key_ok_def split: option.splits)
  show ?thesis
  proof (cases "api_key_ok cfg req")
    case True
    then have "api_key_guard cfg req = None" by (simp add: api_key_guard_def)
    with assms(1) have "internal_app cfg up req \<noteq> Responded (resp 403 unauthorized_body)"
      by (auto simp: internal_app_def express_not_found_def resp_def unauthorized_body_def
               split: sum.splits dest: internal_handler_not_unauthorized)
    with True ok show ?thesis by simp
  next
    case False
    with assms ok show ?thesis by (simp add: internal_app_def api_key_guard_def)
  qed
qed

theorem internal_app_unauthorized_iff_witness:
  "internal_app \<lparr>eflow_key = Some ''k'', backend_key = Some ''secret'', node_env = None\<rparr>
     (\<lambda>c. Rejected (FetchFailed ''down''))
     \<lparr>req_method = ''GET'', req_path = ''/partner-dashboard/offers'',
      req_query = [(''affiliate_id'', QStr ''af1'')], req_headers = [(''x-api-key'', ''guess'')],
      body_malformed = False\<rparr>
   = Responded (resp 403 unauthorized_body)"
  by (rule internal_app_unauthorized_iff [THEN iffD2]) (simp_all add: starts_with_def)

text \<open>
  C30. A list call answered outside 200--299 is passed through: the internal variant
  answers with the provider's own status and the raw upstream body, where the
  canonical contract (and \<open>index.js\<close>) reports a 502 gateway error.
\<close>

theorem internal_handler_status_passthrough:
  assumes "map_of q ''affiliate_id'' = Some (QStr s)" and "s \<noteq> []" and "CHR ''{'' \<notin> set s"
    and "up (internal_list_call cfg (QStr s) (map_of q ''type'')) = Resp st raw parsed"
    and "\<not> resp_ok st"
  shows "internal_handler cfg up q = Inr (resp st (upstream_failed_body raw))"
  using assms by (simp add: internal_handler_def internal_validate_str internal_try_def)

theorem internal_handler_status_passthrough_witness:
  "internal_handler \<lparr>eflow_key = Some ''k'', backend_key = Some ''secret'', node_env = None\<rparr>
     (\<lambda>c. Resp 404 ''no such affiliate'' None) [(''affiliate_id'', QStr ''af1'')]
   = Inr (resp 404 (upstream_failed_body ''no such affiliate''))"
  by (rule internal_handler_status_passthrough [where s = "''af1''"]) (simp_all add: resp_ok_def)

text \<open>
  C31. The success path of the internal variant: for a usable string
  \<open>affiliate_id\<close> and a successful list call whose \<open>offers\<close> is an array of non-null
  offers, the answer is 200 \<open>{offers}\<close> holding, in order, each offer merged with the
  outcome of its own untimed detail call.
\<close>

theorem internal_handler_success:
  assumes "map_of q ''affiliate_id'' = Some (QStr s)" and "s \<noteq> []" and "CHR ''{'' \<notin> set s"
    and "up (internal_list_call cfg (QStr s) (map_of q ''type'')) = Resp st raw (Some (JObj ps))"
    and "resp_ok st" and "map_of ps ''offers'' = Some (JArr offers)" and "JNull \<notin> set offers"
  shows "internal_handler cfg up q = Inr (resp 200 (JObj [(''offers'', JArr
           (map (\<lambda>x. detail_merge x (up (internal_detail_call cfg (projr (get_prop x ''network_offer_id'')) (QStr s))))
              offers))]))"
  using assms
  by (simp add: internal_handler_def internal_validate_str internal_try_def js_or_def
                promise_all_internal_enrich_ok)

theorem internal_handler_success_witness:
  "internal_handler \<lparr>eflow_key = Some ''k'', backend_key = Some ''secret'', node_env = None\<rparr>
     (\<lambda>c. if call_url c = list_url (QStr ''af1'') None
          then Resp 200 ''{}'' (Some (JObj [(''offers'', JArr [JObj [(''network_offer_id'', JNum 7)]])]))
          else Resp 200 ''{}'' (Some (JObj [(''default_payout'', JNum 5), (''currency'', JStr ''USD'')])))
     [(''affiliate_id'', QStr ''af1'')]
   = Inr (resp 200 (JObj [(''offers'', JArr [JObj [(''network_offer_id'', JNum 7), (''default_payout'', JNum 5),
                                                 (''currency'', JStr ''USD'')]])]))"
proof -
  let ?up = "\<lambda>c. if call_url c = list_url (QStr ''af1'') None
          then Resp 200 ''{}'' (Some (JObj [(''offers'', JArr [JObj [(''network_offer_id'', JNum 7)]])]))
          else Resp 200 ''{}'' (Some (JObj [(''default_payout'', JNum 5), (''currency'', JStr ''USD'')]))"
  have "internal_handler \<lparr>eflow_key = Some ''k'', backend_key = Some ''secret'', node_env = None\<rparr> ?up
          [(''affiliate_id'', QStr ''af1'')]
        = Inr (resp 200 (JObj [(''offers'', JArr (map (\<lambda>x. detail_merge x (?up (internal_detail_call
             \<lparr>eflow_key = Some ''k'', backend_key = Some ''secret'', node_env = None\<rparr>
             (projr (get_prop x ''network_offer_id'')) (QStr ''af1''))))
             [JObj [(''network_offer_id'', JNum 7)]]))]))"
    by (rule internal_handler_success [where s = "''af1''" and st = 200 and raw = "''{}''"
          and ps = "[(''offers'', JArr [JObj [(''network_offer_id'', JNum 7)]])]"])
       (simp_all add: internal_list_call_def resp_ok_def)
  also have "\<dots> = Inr (resp 200 (JObj [(''offers'', JArr [JObj [(''network_offer_id'', JNum 7),
                    (''default_payout'', JNum 5), (''currency'', JStr ''USD'')]])]))"
    by (simp add: internal_detail_call_def detail_url_def list_url_def eflow_host_def
                  detail_merge_def merge_detail_def resp_ok_def js_or_def)
  finally show ?thesis .
qed

text \<open>
  C32. A missing or empty \<open>affiliate_id\<close>, or one containing \<open>{\<close>, is answered 400
  with the single \<open>error\<close> field; the internal variant has no status probe.
\<close>

theorem internal_handler_bad_affiliate:
  assumes "map_of q ''affiliate_id'' = None
           \<or> (\<exists>s. map_of q ''affiliate_id'' = Some (QStr s) \<and> (s = [] \<or> CHR ''{'' \<in> set s))"
  shows "internal_handler cfg up q = Inr (resp 400 internal_bad_affiliate_body)"
  using assms by (auto simp: internal_handler_def internal_validate_def internal_validate_str q_truthy_def)

theorem internal_handler_bad_affiliate_witness:
  "internal_handler \<lparr>eflow_key = Some ''k'', backend_key = Some ''secret'', node_env = None\<rparr>
     (\<lambda>c. Rejected (FetchFailed ''down'')) [(''affiliate_id'', QStr ''{x}'')]
   = Inr (resp 400 internal_bad_affiliate_body)"
  by (rule internal_handler_bad_affiliate) simp

text \<open>
  C33. The internal variant never checks \<open>type\<close>: the answer to a query whose
  \<open>type\<close> is anything but \<open>top\<close> or \<open>latest\<close> is the answer to the same query
  without it, where the spec requires an unrecognised sort mode to be rejected.
\<close>

theorem internal_handler_type_ignored:
  assumes "\<not> valid_type (map_of q ''type'')"
  shows "internal_handler cfg up q = internal_handler cfg up [(k, v) \<leftarrow> q. k \<noteq> ''type'']"
proof -
  let ?q' = "[(k, v) \<leftarrow> q. k \<noteq> ''type'']"
  have a: "map_of ?q' ''affiliate_id'' = map_of q ''affiliate_id''" and t: "map_of ?q' ''type'' = None"
    by (simp_all add: map_of_filter_key)
  have u: "internal_try cfg up x (map_of q ''type'') = internal_try cfg up x None" for x
    using assms by (rule internal_try_untyped)
  show ?thesis
  proof (cases "map_of q ''affiliate_id''")
    case None
    with a show ?thesis by (simp add: internal_handler_def internal_validate_def)
  next
    case (Some x)
    with a t u show ?thesis
      by (cases "q_includes x ''{''") (simp_all add: internal_handler_def internal_validate_def split: bool.split)
  qed
qed

theorem internal_handler_type_ignored_witness:
  "internal_handler \<lparr>eflow_key = Some ''k'', backend_key = Some ''secret'', node_env = None\<rparr>
     (\<lambda>c. Rejected (FetchFailed ''down'')) [(''affiliate_id'', QStr ''af1''), (''type'', QStr ''bogus'')]
   = internal_handler \<lparr>eflow_key = Some ''k'', backend_key = Some ''secret'', node_env = None\<rparr>
     (\<lambda>c. Rejected (FetchFailed ''down'')) [(''affiliate_id'', QStr ''af1'')]"
  using internal_handler_type_ignored [of "[(''affiliate_id'', QStr ''af1''), (''type'', QStr ''bogus'')]"]
  by (simp add: valid_type_def)

end
