(* ===== verification/Fanout_Pending.thy ===== *)
theory Fanout_Pending
  imports Fanout
begin

text \<open>
  The \<open>Promise.all\<close> join when a task may never settle. In theory \<open>Fanout\<close> the
  settlement of task \<open>i\<close> is a value \<open>rs ! i\<close>, so every task can always settle.
  A \<open>fetch\<close> without a working timeout may, however, never answer: the internal
  variant (\<open>src/unnamed/part_000\<close>, lines 63--87) passes no timeout, and
  \<open>src/index.js\<close> passes a \<open>timeout\<close> option that the fetch API does not define.
  Here the outcome of task \<open>i\<close> is \<open>os ! i\<close>, \<open>None\<close> for a task that never
  settles, and only a task with an outcome can take a step. The join is the same
  state machine (\<open>pall_settle\<close>); the runs of \<open>Fanout\<close> are those where every
  outcome is present.
\<close>

inductive pall_hstep :: "('e + 'a) option list \<Rightarrow> ('e, 'a) pall \<Rightarrow> ('e, 'a) pall \<Rightarrow> bool" where
  complete: "i < length (slots s) \<Longrightarrow> slots s ! i = None \<Longrightarrow> os ! i = Some r
             \<Longrightarrow> pall_hstep os s (pall_settle i r s)"

inductive pall_hreach :: "('e + 'a) option list \<Rightarrow> ('e, 'a) pall \<Rightarrow> bool" where
  start: "pall_hreach os (pall_init (length os))"
| step: "pall_hreach os s \<Longrightarrow> pall_hstep os s t \<Longrightarrow> pall_hreach os t"

inductive_cases pall_hstepE: "pall_hstep os s t"

text \<open>Outcomes with a placeholder \<open>d\<close> for the tasks that never settle.\<close>

definition fill :: "'r \<Rightarrow> 'r option list \<Rightarrow> 'r list" where
  "fill d os = map (\<lambda>o'. case o' of Some r \<Rightarrow> r | None \<Rightarrow> d) os"

section \<open>Lemmas\<close>

lemma length_fill [simp]: "length (fill d os) = length os"
  by (simp add: fill_def)

lemma fill_nth_Some: "i < length os \<Longrightarrow> os ! i = Some r \<Longrightarrow> fill d os ! i = r"
  by (simp add: fill_def)

text \<open>A filled slot holds its task's outcome; a task that never settles keeps its slot empty.\<close>

lemma pall_hreach_slots:
  "pall_hreach os s \<Longrightarrow> list_all2 (\<lambda>c o'. c = None \<or> c = o') (slots s) os"
proof (induction rule: pall_hreach.induct)
  case start
  show ?case by (simp add: pall_init_def list_all2_conv_all_nth)
next
  case (step s t)
  from step.hyps(2) show ?case
  proof cases
    case (complete i r)
    with step.IH show ?thesis
      by (auto simp: pall_settle_def Let_def list_all2_conv_all_nth nth_list_update)
  qed
qed

lemma pall_hreach_fill: "pall_hreach os s \<Longrightarrow> pall_reach (fill d os) s"
proof (induction rule: pall_hreach.induct)
  case (start os)
  show ?case using pall_reach.start [of "fill d os"] by simp
next
  case (step os s t)
  from step.hyps(2) show ?case
  proof cases
    case (complete i r)
    have "length (slots s) = length os"
      using pall_hreach_slots [OF step.hyps(1)] by (rule list_all2_lengthD)
    with complete have "fill d os ! i = r" by (simp add: fill_nth_Some)
    with complete have "pall_step (fill d os) s t" by (metis pall_step.complete)
    with step.IH show ?thesis by (rule pall_reach.step)
  qed
qed

lemma pall_hreach_length: "pall_hreach os s \<Longrightarrow> length (slots s) = length os"
  by (rule list_all2_lengthD) (rule pall_hreach_slots)

lemma pall_hsteps_hreach: "(pall_hstep os)\<^sup>*\<^sup>* s t \<Longrightarrow> pall_hreach os s \<Longrightarrow> pall_hreach os t"
  by (induction rule: rtranclp_induct) (auto intro: pall_hreach.step)

lemma map_Some_fill: "None \<notin> set os \<Longrightarrow> map Some (fill d os) = os"
proof (induction os)
  case (Cons a os)
  then show ?case by (cases a) (auto simp: fill_def)
qed (simp add: fill_def)

text \<open>Where every task settles, the runs are those of theory \<open>Fanout\<close>.\<close>

lemma pall_steps_hsteps:
  "(pall_step rs)\<^sup>*\<^sup>* s t \<Longrightarrow> pall_reach rs s \<Longrightarrow> (pall_hstep (map Some rs))\<^sup>*\<^sup>* s t"
proof (induction rule: converse_rtranclp_induct)
  case (step y z)
  from step.hyps(1) have h: "pall_hstep (map Some rs) y z"
  proof cases
    case (complete i)
    with pall_reach_length [OF step.prems] show ?thesis
      by (metis pall_hstep.complete nth_map)
  qed
  from step.prems step.hyps(1) have "pall_reach rs z" by (rule pall_reach.step)
  with h step.IH show ?case by (meson converse_rtranclp_into_rtranclp)
qed simp

text \<open>Where every task settles, some run settles the join.\<close>

lemma pall_hsettle_all:
  assumes "pall_hreach os s" and "None \<notin> set os"
  shows "\<exists>t. (pall_hstep os)\<^sup>*\<^sup>* s t \<and> settled t \<noteq> None"
proof -
  obtain d :: "'a + 'b" where True by simp
  have "pall_reach (fill d os) s" using assms(1) by (rule pall_hreach_fill)
  then obtain t where "(pall_step (fill d os))\<^sup>*\<^sup>* s t" "settled t \<noteq> None"
    by (blast dest: pall_reach_steps_settle)
  with \<open>pall_reach (fill d os) s\<close> have "(pall_hstep (map Some (fill d os)))\<^sup>*\<^sup>* s t"
    by (blast intro: pall_steps_hsteps)
  with assms(2) \<open>settled t \<noteq> None\<close> show ?thesis by (auto simp: map_Some_fill)
qed

text \<open>A task that never settles, with no task rejecting, keeps the join pending for ever.\<close>

lemma pall_hang:
  assumes "pall_hreach os t" and "None \<in> set os" and "\<forall>e. Some (Inl e) \<notin> set os"
  shows "settled t = None"
proof (cases "settled t")
  case (Some x)
  obtain d :: "'a + 'b" where True by simp
  have inv: "pall_inv (fill d os) t" using pall_hreach_fill [OF assms(1)] by (rule pall_reach_inv)
  have a2: "list_all2 (\<lambda>c o'. c = None \<or> c = o') (slots t) os" using assms(1) by (rule pall_hreach_slots)
  show ?thesis
  proof (cases x)
    case (Inl e)
    with Some inv have "Some (Inl e) \<in> set (slots t)" by (simp add: pall_inv_def)
    then obtain i where i: "i < length (slots t)" "slots t ! i = Some (Inl e)"
      by (auto simp: in_set_conv_nth)
    with a2 have "i < length os" "os ! i = Some (Inl e)" by (auto simp: list_all2_conv_all_nth)
    then have "Some (Inl e) \<in> set os" by (metis nth_mem)
    with assms(3) show ?thesis by blast
  next
    case (Inr vs)
    with Some inv have "None \<notin> set (slots t)" by (auto simp: pall_inv_def collect_Some)
    moreover have "None \<in> set (slots t)"
    proof -
      from assms(2) obtain i where "i < length os" "os ! i = None" by (auto simp: in_set_conv_nth)
      with a2 have "i < length (slots t)" "slots t ! i = None" by (auto simp: list_all2_conv_all_nth)
      then show ?thesis by (metis nth_mem)
    qed
    ultimately show ?thesis by blast
  qed
qed

text \<open>A rejecting task that is still pending can settle the join at once.\<close>

lemma pall_reject_step:
  assumes "pall_hreach os s" and "settled s = None" and "Some (Inl e) \<in> set os"
  shows "\<exists>t. pall_hstep os s t \<and> settled t \<noteq> None"
proof -
  obtain d :: "'a + 'b" where True by simp
  from assms(3) obtain j where j: "j < length os" "os ! j = Some (Inl e)" by (auto simp: in_set_conv_nth)
  have len: "length (slots s) = length os" using assms(1) by (rule pall_hreach_length)
  have a2: "list_all2 (\<lambda>c o'. c = None \<or> c = o') (slots s) os" using assms(1) by (rule pall_hreach_slots)
  have inv: "pall_inv (fill d os) s" using pall_hreach_fill [OF assms(1)] by (rule pall_reach_inv)
  have "slots s ! j = None"
  proof (rule ccontr)
    assume "slots s ! j \<noteq> None"
    with a2 j have "slots s ! j = Some (Inl e)" by (auto simp: list_all2_conv_all_nth)
    with j len have "Some (Inl e) \<in> set (slots s)" by (metis nth_mem)
    with inv assms(2) show False by (fastforce simp: pall_inv_def)
  qed
  with j len have "pall_hstep os s (pall_settle j (Inl e) s)" by (intro pall_hstep.complete) simp_all
  moreover have "settled (pall_settle j (Inl e) s) \<noteq> None"
    using assms(2) by (simp add: pall_settle_def Let_def)
  ultimately show ?thesis by blast
qed

text \<open>
  C6. Liveness of the join, with tasks that may never settle: from every reachable
  state, some run settles the join exactly when every task settles or some task
  rejects. A single detail call that never answers, with no rejection, leaves the
  join (and so the request) pending for ever.
\<close>

theorem pall_settles_iff:
  assumes "pall_hreach os s"
  shows "(\<exists>t. (pall_hstep os)\<^sup>*\<^sup>* s t \<and> settled t \<noteq> None)
         \<longleftrightarrow> None \<notin> set os \<or> (\<exists>e. Some (Inl e) \<in> set os)"
proof
  assume "\<exists>t. (pall_hstep os)\<^sup>*\<^sup>* s t \<and> settled t \<noteq> None"
  then obtain t where t: "(pall_hstep os)\<^sup>*\<^sup>* s t" "settled t \<noteq> None" by blast
  from t(1) assms have "pall_hreach os t" by (rule pall_hsteps_hreach)
  from pall_hang [OF this] t(2) show "None \<notin> set os \<or> (\<exists>e. Some (Inl e) \<in> set os)" by blast
next
  assume "None \<notin> set os \<or> (\<exists>e. Some (Inl e) \<in> set os)"
  then show "\<exists>t. (pall_hstep os)\<^sup>*\<^sup>* s t \<and> settled t \<noteq> None"
  proof
    assume "None \<notin> set os"
    with assms show ?thesis by (rule pall_hsettle_all)
  next
    assume "\<exists>e. Some (Inl e) \<in> set os"
    then obtain e where e: "Some (Inl e) \<in> set os" by blast
    show ?thesis
    proof (cases "settled s")
      case None
      with assms e show ?thesis by (blast dest: pall_reject_step)
    qed blast
  qed
qed

theorem pall_settles_iff_witness:
  "\<not> (\<exists>t. (pall_hstep [Some (Inr (1::nat)), None :: (unit + nat) option])\<^sup>*\<^sup>* (pall_init 2) t
          \<and> settled t \<noteq> None)"
proof -
  let ?os = "[Some (Inr (1::nat)), None :: (unit + nat) option]"
  have "pall_hreach ?os (pall_init 2)"
    using pall_hreach.start [of ?os] by (simp add: numeral_2_eq_2)
  from pall_settles_iff [OF this] show ?thesis by auto
qed

end
