(* ===== verification/Spec2Isabelle.thy ===== *)
theory Spec2Isabelle
  imports Internal Fanout_Pending
begin

text \<open>
  \<^bold>\<open>A verified model of the Afrofiliate partner-dashboard relay.\<close>

  The program is an Express application that relays one read endpoint,
  \<open>GET /partner-dashboard/offers\<close>, to the Everflow affiliate API. It exists in
  two variants: \<open>src/index.js\<close> (the public relay, the canonical contract of the
  spec) and \<open>src/unnamed/part_000\<close> (an internal variant guarded by a shared API key).
  A request is validated, one "list offers" call is made, one "offer detail" call per
  returned offer is made concurrently, and each offer is merged with its detail, a
  failed detail leaving the offer as it was. The development models it as follows.

  \<^item> \<open>Prelude\<close>: JavaScript's in-place property update on association lists
    (\<open>props_set\<close>), \<open>String.prototype.includes\<close>/\<open>startsWith\<close>, \<open>Array.join\<close>,
    ASCII case folding, and the decimal rendering of numbers (\<open>nat_str\<close>).
  \<^item> \<open>Json\<close>: the values the relay handles (\<open>json\<close>, with \<open>undefined\<close> as \<open>None\<close>),
    truthiness and \<open>||\<close> (\<open>truthy\<close>, \<open>js_or\<close>), property reads that throw on
    \<open>null\<close> (\<open>get_prop\<close>), object spread (\<open>spread\<close>), and template-literal
    conversion (\<open>to_str\<close>).
  \<^item> \<open>Validator\<close>: the query values Express's \<open>qs\<close> parser produces (\<open>qval\<close>:
    string, array, object), the checks of \<open>index.js\<close> lines 47--74
    (\<open>validate_offers\<close>), the URLs of lines 76--82 and 109 (\<open>list_url\<close>,
    \<open>detail_url\<close>), and the abstract rule chain of spec section 4.1
    (\<open>spec_validate\<close>) with the refinement theorem relating them.
  \<^item> \<open>Upstream\<close>: the interface to the provider. Its state is the process
    configuration (\<open>config\<close>: the \<open>EFLOW_ADMIN_API_KEY\<close>, \<open>BACKEND_API_KEY\<close> and
    \<open>NODE_ENV\<close> environment variables); a call is a record of URL, key header and
    timeout option (\<open>list_call\<close> with 5000 ms, \<open>detail_call\<close> with 3000 ms); the
    provider is a function from calls to outcomes (rejection, or status, raw text and
    parsed JSON). The provider's reading of a URL's query (\<open>query_params\<close>) is the
    spec's view of the call (section 5).
  \<^item> \<open>Enrich\<close>: the per-offer callback of lines 107--132 (\<open>enrich_offer\<close>, with
    \<open>detail_merge\<close> for the \<open>try\<close> block and \<open>merge_detail\<close> for the object
    literal \<open>{...offer, default_payout, currency}\<close>).
  \<^item> \<open>Fanout\<close>: \<open>Promise.all\<close> over the callbacks as a state machine: a slot per
    task, an inductive step relation \<open>pall_step\<close> in which any pending task may
    settle next, reachable states \<open>pall_reach\<close>, the invariant \<open>pall_inv\<close> proved by
    rule induction, and the sequential reading \<open>promise_all\<close>.
  \<^item> \<open>Fanout_Pending\<close>: the same join when a task may never settle
    (\<open>pall_hstep\<close>, \<open>pall_hreach\<close>: the outcome of a task is optional, and only a
    task with an outcome steps); its reachable states are reachable states of
    \<open>Fanout\<close> for any placeholder outcome (\<open>fill\<close>).
  \<^item> \<open>Handler\<close>: the route handler of lines 46--156 (\<open>offers_handler\<close>, with
    \<open>offers_try\<close> for the \<open>try\<close> block and \<open>catch_internal\<close> for its
    \<open>catch\<close>) and the response bodies, a response being the status and JSON body
    given to \<open>res.status(n).json(b)\<close>.
  \<^item> \<open>App\<close>: the Express application of \<open>index.js\<close> (\<open>index_app\<close>): a request
    (\<open>request\<close>: method, path, parsed query, headers, whether the JSON body is
    malformed) goes through the middleware in registration order (\<open>cors\<close> answers
    \<open>OPTIONS\<close> with 204, \<open>express.json()\<close> sends a malformed body to the global
    error handler), then the routes (matched case-insensitively, with an optional
    trailing slash, for \<open>GET\<close> and \<open>HEAD\<close>), then the 404 handler. The result is a
    response or \<open>Hangs\<close>: no response is sent, because Express 4 does not observe a
    rejected async handler. Under Node 15 and later the unhandled rejection
    terminates the process, which is worse than a hang; \<open>Hangs\<close> covers both.
  \<^item> \<open>Internal\<close>: the variant \<open>src/unnamed/part_000\<close> (\<open>internal_app\<close>): the
    \<open>x-api-key\<close> middleware (\<open>api_key_guard\<close>, \<open>api_key_ok\<close>), the handler
    (\<open>internal_handler\<close>, \<open>internal_validate\<close>, \<open>internal_try\<close>), which reuses the
    URLs and \<open>detail_merge\<close> but makes untimed calls (\<open>internal_enrich_pending\<close>
    is its callback against a provider that may never answer), and Express's default
    404.

  What the lemmas show. Validator: the code refines the spec's rule chain on string
  parameters (C5), and where it does not: an empty \<open>type\<close> is accepted (C15), an
  array-valued \<open>affiliate_id\<close> escapes the \<open>{\<close> guard (C14). Upstream: the list
  URL round-trips through the provider's reading of its query when the affiliate id
  holds no \<open>&\<close> (C11), and an affiliate id with \<open>&k=v\<close> passes the validator and
  adds the parameter \<open>k\<close> to the provider call (C18). Enrich: failure isolation
  (C3), the exact fields of an enriched offer (C4), the falsy-payout divergence (C12).
  Fanout: every completion order resolves to the values in their original order and
  agrees with \<open>promise_all\<close> (C2); with tasks that may never settle, the join can
  still settle exactly when every task settles or one rejects (C6). Handler: the
  response of every path of the handler (C1, C7--C10, C13, C20, C21). App: the 404
  handler (C22), case-insensitive routing and the missing response on a handler
  exception (C23, C25), the malformed-body path (C24), the health check (C26), and,
  over all paths, the error contract of spec section 7 (C36) and the set of statuses
  sent (C37). Internal: the case-sensitive key check bypassed through
  case-insensitive routing (C27), the exact 403 condition (C28), the status
  passthrough (C30), the success path (C31), the affiliate check (C32), and that
  \<open>type\<close> is ignored (C33). This theory: the spec's N/M partial-enrichment property
  (C16), that the HTTP response is the same for every completion order of the detail
  calls (C17), that the internal variant's join settles exactly when every detail
  call answers (C19), which requests each variant sends upstream (C29), and that the
  two variants enrich alike and return the same offers where both succeed (C34, C35).

  Bounds and fuel. No loop of the relay runs unboundedly: the only iteration is the
  \<open>map\<close> over the offer list (structural recursion), so no fuel is needed. What can
  fail to end is waiting: a fetch may never settle. \<open>index.js\<close> passes a
  \<open>timeout\<close> option (5000 and 3000 ms) that the model records on each call; the
  WHATWG \<open>fetch\<close> API, and \<open>node-fetch\<close> from version 3 on, which the dynamic
  \<open>import('node-fetch')\<close> suggests, do not support that option, so whether it takes
  effect depends on the installed library, which the repository does not pin. The
  internal variant passes no timeout at all. C6 and C19 state exactly when the join
  settles if a call never answers. The list call asks for at most 10 offers
  (\<open>limit=10\<close>); nothing in the code enforces that bound on the reply, and no
  theorem assumes it.

  Not modelled. Process start-up (\<open>dotenv\<close>, \<open>app.listen\<close>), request logging
  (\<open>morgan\<close>), the CORS headers of the \<open>cors\<close> middleware (only its 204 answer to
  \<open>OPTIONS\<close> is modelled), response headers, and the parsing done by
  \<open>express.json()\<close> (only whether it fails) are library code configured by the
  sources, not logic of them. JSON parsing of provider bodies is part of the
  provider's outcome. JSON numbers are unbounded integers: JavaScript's doubles (non-
  integers, rounding above \<open>2^53\<close>, exponent notation from \<open>1e21\<close>) are not
  modelled. Timestamps and \<open>process.uptime()\<close> are inputs. The stack trace in
  development error bodies is represented by the error's name, and Express's default
  404 page by its text.
\<close>

text \<open>
  C16. Spec section 8: given a successful list call returning N non-null offers, the
  response holds N offers in the provider's order; an offer whose detail call failed
  (rejected, non-2xx, unparsable, \<open>null\<close>) is returned exactly as received, and an
  offer whose detail call returned an object carries that detail's
  \<open>default_payout\<close> (or \<open>"N/A"\<close>) and \<open>currency\<close> (or \<open>""\<close>).
\<close>

theorem offers_partial_enrichment:
  assumes "validate_offers q = Inr (Valid a t)"
    and "up (list_call cfg a t) = Resp st raw (Some (JObj ps))" and "resp_ok st"
    and "map_of ps ''offers'' = Some (JArr offers)" and "JNull \<notin> set offers"
  shows "\<exists>eo. offers_handler cfg up now q = Inr (resp 200 (success_body eo now))
           \<and> length eo = length offers
           \<and> (\<forall>i < length offers.
                (\<not> detail_usable (up (detail_call cfg (projr (get_prop (offers ! i) ''network_offer_id'')) a))
                   \<longrightarrow> eo ! i = offers ! i)
              \<and> (\<forall>st' raw' d. up (detail_call cfg (projr (get_prop (offers ! i) ''network_offer_id'')) a)
                                 = Resp st' raw' (Some (JObj d)) \<and> resp_ok st'
                   \<longrightarrow> get_prop (eo ! i) ''default_payout''
                         = Inr (Some (js_or (map_of d ''default_payout'') (JStr ''N/A'')))
                     \<and> get_prop (eo ! i) ''currency'' = Inr (Some (js_or (map_of d ''currency'') (JStr '''')))))"
proof -
  let ?f = "\<lambda>x. detail_merge x (up (detail_call cfg (projr (get_prop x ''network_offer_id'')) a))"
  have h: "offers_handler cfg up now q = Inr (resp 200 (success_body (map ?f offers) now))"
    using assms
    by (simp add: offers_handler_Valid offers_try_list_ok promise_all_enrich_ok join_result_def
                  catch_internal_def)
  have e1: "\<not> detail_usable (up (detail_call cfg (projr (get_prop x ''network_offer_id'')) a)) \<Longrightarrow> ?f x = x"
    for x by simp
  have e2: "resp_ok st'
      \<Longrightarrow> get_prop (detail_merge x (Resp st' raw' (Some (JObj d)))) ''default_payout''
            = Inr (Some (js_or (map_of d ''default_payout'') (JStr ''N/A'')))
        \<and> get_prop (detail_merge x (Resp st' raw' (Some (JObj d)))) ''currency''
            = Inr (Some (js_or (map_of d ''currency'') (JStr '''')))"
    for x st' raw' d by (simp add: detail_merge_def map_of_merge_detail)
  show ?thesis
    by (rule exI [of _ "map ?f offers"]) (simp add: h e1 e2)
qed

theorem offers_partial_enrichment_witness:
  "\<exists>eo. offers_handler \<lparr>eflow_key = Some ''k'', backend_key = None, node_env = None\<rparr>
          (\<lambda>c. if call_url c = list_url (QStr ''af1'') None
               then Resp 200 ''{}'' (Some (JObj [(''offers'', JArr [JObj [(''network_offer_id'', JNum 7)]])]))
               else Rejected (FetchFailed ''timeout''))
          ''now'' [(''affiliate_id'', QStr ''af1'')] = Inr (resp 200 (success_body eo ''now''))
        \<and> length eo = 1"
proof -
  let ?cfg = "\<lparr>eflow_key = Some ''k'', backend_key = None, node_env = None\<rparr>"
  let ?up = "\<lambda>c. if call_url c = list_url (QStr ''af1'') None
               then Resp 200 ''{}'' (Some (JObj [(''offers'', JArr [JObj [(''network_offer_id'', JNum 7)]])]))
               else Rejected (FetchFailed ''timeout'')"
  have v: "validate_offers [(''affiliate_id'', QStr ''af1'')] = Inr (Valid (QStr ''af1'') None)"
    by (simp add: validate_offers_def q_truthy_def)
  have l: "?up (list_call ?cfg (QStr ''af1'') None)
             = Resp 200 ''{}'' (Some (JObj [(''offers'', JArr [JObj [(''network_offer_id'', JNum 7)]])]))"
    by (simp add: list_call_def)
  have ok: "resp_ok 200" by (simp add: resp_ok_def)
  from offers_partial_enrichment [where up = ?up and cfg = ?cfg and now = "''now''"
      and offers = "[JObj [(''network_offer_id'', JNum 7)]]", OF v l ok]
  show ?thesis by auto
qed

text \<open>
  C17. The response does not depend on the order in which the detail calls complete:
  for every run of the \<open>Promise.all\<close> join over the enrichment callbacks that has
  settled every task, responding from the join's settlement gives exactly the
  handler's response (the only rejection a callback can produce is the
  \<open>TypeError\<close> of a \<open>null\<close> offer, so even the development-mode error body agrees).
\<close>

theorem offers_response_schedule_independent:
  assumes "validate_offers q = Inr (Valid a t)"
    and "up (list_call cfg a t) = Resp st raw (Some (JObj ps))" and "resp_ok st"
    and "map_of ps ''offers'' = Some (JArr offers)"
    and "pall_reach (map (enrich_offer cfg up a) offers) s" and "None \<notin> set (slots s)"
  shows "\<exists>r. settled s = Some r \<and> offers_handler cfg up now q = Inr (catch_internal cfg (join_result now r))"
proof -
  let ?rs = "map (enrich_offer cfg up a) offers"
  have rej: "promise_all ?rs = Inl e" if "Inl e \<in> set ?rs" for e
  proof -
    from that obtain x where "x \<in> set offers" and "enrich_offer cfg up a x = Inl e" by auto
    then have "e = TypeError" and "JNull \<in> set offers" by (auto simp: enrich_offer_Inl)
    then show ?thesis by (simp add: promise_all_enrich_null)
  qed
  have "settled s = Some (promise_all ?rs)"
    using assms(5,6) rej by (rule pall_complete_promise_all)
  moreover have "offers_handler cfg up now q = Inr (catch_internal cfg (join_result now (promise_all ?rs)))"
    using assms(1-4) by (simp add: offers_handler_Valid offers_try_list_ok)
  ultimately show ?thesis by blast
qed

theorem offers_response_schedule_independent_witness:
  "\<exists>r. settled (pall_settle 0
          (enrich_offer \<lparr>eflow_key = None, backend_key = None, node_env = None\<rparr>
             (\<lambda>c. Resp 200 ''{}'' (Some (JObj [(''offers'', JArr [JObj []])]))) (QStr ''af1'') (JObj []))
          (pall_init 1)) = Some r
     \<and> offers_handler \<lparr>eflow_key = None, backend_key = None, node_env = None\<rparr>
          (\<lambda>c. Resp 200 ''{}'' (Some (JObj [(''offers'', JArr [JObj []])]))) ''now'' [(''affiliate_id'', QStr ''af1'')]
        = Inr (catch_internal \<lparr>eflow_key = None, backend_key = None, node_env = None\<rparr> (join_result ''now'' r))"
proof -
  let ?cfg = "\<lparr>eflow_key = None, backend_key = None, node_env = None\<rparr>"
  let ?up = "\<lambda>c::upstream_call. Resp 200 ''{}'' (Some (JObj [(''offers'', JArr [JObj []])]))"
  let ?rs = "map (enrich_offer ?cfg ?up (QStr ''af1'')) [JObj []]"
  let ?s = "pall_settle 0 (?rs ! 0) (pall_init 1)"
  have v: "validate_offers [(''affiliate_id'', QStr ''af1'')] = Inr (Valid (QStr ''af1'') None)"
    by (simp add: validate_offers_def q_truthy_def)
  have l: "?up (list_call ?cfg (QStr ''af1'') None) = Resp 200 ''{}'' (Some (JObj [(''offers'', JArr [JObj []])]))"
    by simp
  have ok: "resp_ok 200" by (simp add: resp_ok_def)
  have o: "map_of [(''offers'', JArr [JObj []])] ''offers'' = Some (JArr [JObj []])" by simp
  have r0: "pall_reach ?rs (pall_init 1)"
    using pall_reach.start [of ?rs] by simp
  have "pall_step ?rs (pall_init 1) ?s"
    by (rule pall_step.complete) (simp_all add: pall_init_def)
  with r0 have r1: "pall_reach ?rs ?s" by (rule pall_reach.step)
  have fin: "None \<notin> set (slots ?s)"
    by (simp add: pall_init_def pall_settle_def Let_def)
  from offers_response_schedule_independent [OF v l ok o r1 fin, where now = "''now''"]
  show ?thesis by simp
qed

text \<open>
  C19. The internal variant's fan-out can hang: over a list of non-null offers, its
  \<open>Promise.all\<close> join, from any reachable state, can still settle exactly when
  every detail call answers; one detail call that never answers (no timeout is set)
  leaves the join, and so the request, pending for ever.
\<close>

theorem internal_join_settles_iff:
  assumes "JNull \<notin> set offers"
    and "pall_hreach (map (internal_enrich_pending cfg up a) offers) s"
  shows "(\<exists>t. (pall_hstep (map (internal_enrich_pending cfg up a) offers))\<^sup>*\<^sup>* s t \<and> settled t \<noteq> None)
         \<longleftrightarrow> (\<forall>x \<in> set offers. up (internal_detail_call cfg (projr (get_prop x ''network_offer_id'')) a) \<noteq> None)"
proof -
  let ?os = "map (internal_enrich_pending cfg up a) offers"
  have "internal_enrich_pending cfg up a x \<noteq> Some (Inl e)" if "x \<in> set offers" for x e
  proof -
    from that assms(1) have "x \<noteq> JNull" by blast
    then show ?thesis by (simp add: internal_enrich_pending_outcome)
  qed
  then have no_rej: "\<forall>e. Some (Inl e) \<notin> set ?os" by (auto dest: sym)
  have none: "None \<in> set ?os \<longleftrightarrow> (\<exists>x \<in> set offers. up (internal_detail_call cfg (projr (get_prop x ''network_offer_id'')) a) = None)"
  proof -
    have "internal_enrich_pending cfg up a x = None
            \<longleftrightarrow> up (internal_detail_call cfg (projr (get_prop x ''network_offer_id'')) a) = None"
      if "x \<in> set offers" for x
    proof -
      from that assms(1) have "x \<noteq> JNull" by blast
      then show ?thesis by (simp add: internal_enrich_pending_outcome)
    qed
    then show ?thesis by (force simp: image_iff)
  qed
  show ?thesis
  proof
    assume "\<exists>t. (pall_hstep ?os)\<^sup>*\<^sup>* s t \<and> settled t \<noteq> None"
    then obtain t where t: "(pall_hstep ?os)\<^sup>*\<^sup>* s t" "settled t \<noteq> None" by blast
    from t(1) assms(2) have "pall_hreach ?os t" by (rule pall_hsteps_hreach)
    from pall_hang [OF this _ no_rej] t(2) have "None \<notin> set ?os" by blast
    with none show "\<forall>x \<in> set offers. up (internal_detail_call cfg (projr (get_prop x ''network_offer_id'')) a) \<noteq> None"
      by auto
  next
    assume "\<forall>x \<in> set offers. up (internal_detail_call cfg (projr (get_prop x ''network_offer_id'')) a) \<noteq> None"
    with none have "None \<notin> set ?os" by blast
    with assms(2) show "\<exists>t. (pall_hstep ?os)\<^sup>*\<^sup>* s t \<and> settled t \<noteq> None" by (rule pall_hsettle_all)
  qed
qed

theorem internal_join_settles_iff_witness:
  "\<not> (\<exists>t. (pall_hstep (map (internal_enrich_pending \<lparr>eflow_key = Some ''k'', backend_key = None, node_env = None\<rparr>
             (\<lambda>c. None) (QStr ''af1'')) [JObj [(''network_offer_id'', JNum 7)]]))\<^sup>*\<^sup>* (pall_init 1) t
          \<and> settled t \<noteq> None)"
proof -
  let ?os = "map (internal_enrich_pending \<lparr>eflow_key = Some ''k'', backend_key = None, node_env = None\<rparr>
             (\<lambda>c. None) (QStr ''af1'')) [JObj [(''network_offer_id'', JNum 7)]]"
  have "pall_hreach ?os (pall_init 1)"
    using pall_hreach.start [of ?os] by simp
  from internal_join_settles_iff [OF _ this] show ?thesis by simp
qed

text \<open>
  C29. Which requests each variant sends upstream: \<open>part_000\<close> calls the provider
  with affiliate \<open>a\<close> and type \<open>t\<close> exactly when \<open>index.js\<close> would, or when
  \<open>index.js\<close> rejects the request only for its type; both variants throw on the same
  requests (a bracketed \<open>affiliate_id\<close>).
\<close>

theorem variants_validation:
  "(internal_validate q = Inr (Some (a, t))
      \<longleftrightarrow> validate_offers q = Inr (Valid a t)
          \<or> (validate_offers q = Inr BadType \<and> map_of q ''affiliate_id'' = Some a \<and> map_of q ''type'' = t))
   \<and> (internal_validate q = Inl e \<longleftrightarrow> validate_offers q = Inl e)"
  by (auto simp: internal_validate_def validate_offers_def Let_def
           split: option.splits sum.splits bool.splits if_splits)

text \<open>
  C34. The two variants enrich an offer identically: for a provider whose answer does
  not depend on the timeout of a call, the callback of \<open>part_000\<close> and the callback
  of \<open>index.js\<close> give the same result on every offer, a rejection included.
\<close>

theorem variants_enrich_agree:
  assumes "\<forall>c. up c = up (c\<lparr>call_timeout := None\<rparr>)"
  shows "internal_enrich_offer cfg up a offer = enrich_offer cfg up a offer"
proof -
  have "up (internal_detail_call cfg oid a) = up (detail_call cfg oid a)" for oid
    using assms [rule_format, of "detail_call cfg oid a"]
    by (simp add: detail_call_def internal_detail_call_def)
  then show ?thesis by (simp add: internal_enrich_offer_def enrich_offer_def split: sum.split)
qed

theorem variants_enrich_agree_witness:
  "internal_enrich_offer \<lparr>eflow_key = Some ''k'', backend_key = None, node_env = None\<rparr>
     (\<lambda>c. Resp 200 ''{}'' (Some (JObj [(''currency'', JStr ''USD'')]))) (QStr ''af1'') (JObj [(''network_offer_id'', JNum 7)])
   = enrich_offer \<lparr>eflow_key = Some ''k'', backend_key = None, node_env = None\<rparr>
     (\<lambda>c. Resp 200 ''{}'' (Some (JObj [(''currency'', JStr ''USD'')]))) (QStr ''af1'') (JObj [(''network_offer_id'', JNum 7)])"
  by (rule variants_enrich_agree) simp

text \<open>
  C35. Where both variants succeed they return the same offers: for a timeout-
  insensitive provider, a usable string \<open>affiliate_id\<close>, a \<open>type\<close> that
  \<open>index.js\<close> accepts, and a successful list call of non-null offers, the offers of
  \<open>index.js\<close>'s success envelope are exactly the \<open>offers\<close> of the internal
  variant's answer.
\<close>

theorem variants_same_offers:
  assumes "\<forall>c. up c = up (c\<lparr>call_timeout := None\<rparr>)"
    and "map_of q ''affiliate_id'' = Some (QStr s)" and "s \<noteq> []" and "CHR ''{'' \<notin> set s"
    and "\<not> q_truthy (map_of q ''type'') \<or> valid_type (map_of q ''type'')"
    and "up (list_call cfg (QStr s) (map_of q ''type'')) = Resp st raw (Some (JObj ps))" and "resp_ok st"
    and "map_of ps ''offers'' = Some (JArr offers)" and "JNull \<notin> set offers"
  shows "\<exists>eo. offers_handler cfg up now q = Inr (resp 200 (success_body eo now))
            \<and> internal_handler cfg up q = Inr (resp 200 (JObj [(''offers'', JArr eo)]))"
proof -
  let ?t = "map_of q ''type''"
  have v: "validate_offers q = Inr (Valid (QStr s) ?t)"
    using assms(2-5) by (auto simp: validate_offers_str)
  have lc: "up (internal_list_call cfg (QStr s) ?t) = up (list_call cfg (QStr s) ?t)"
    using assms(1) [rule_format, of "list_call cfg (QStr s) ?t"]
    by (simp add: list_call_def internal_list_call_def)
  have dc: "up (internal_detail_call cfg oid (QStr s)) = up (detail_call cfg oid (QStr s))" for oid
    using assms(1) [rule_format, of "detail_call cfg oid (QStr s)"]
    by (simp add: detail_call_def internal_detail_call_def)
  let ?eo = "map (\<lambda>x. detail_merge x (up (detail_call cfg (projr (get_prop x ''network_offer_id'')) (QStr s)))) offers"
  have i: "offers_handler cfg up now q = Inr (resp 200 (success_body ?eo now))"
    using v assms(6-9)
    by (simp add: offers_handler_Valid offers_try_list_ok promise_all_enrich_ok join_result_def catch_internal_def)
  have n: "internal_handler cfg up q = Inr (resp 200 (JObj [(''offers'', JArr ?eo)]))"
    using assms(2-4,6-9) lc
    by (simp add: internal_handler_def internal_validate_str internal_try_def js_or_def
                  promise_all_internal_enrich_ok dc)
  from i n show ?thesis by blast
qed

theorem variants_same_offers_witness:
  "\<exists>eo. offers_handler \<lparr>eflow_key = Some ''k'', backend_key = None, node_env = None\<rparr>
          (\<lambda>c. if call_url c = list_url (QStr ''af1'') None
               then Resp 200 ''{}'' (Some (JObj [(''offers'', JArr [JObj [(''network_offer_id'', JNum 7)]])]))
               else Resp 200 ''{}'' (Some (JObj [(''default_payout'', JNum 5)])))
          ''now'' [(''affiliate_id'', QStr ''af1'')]
          = Inr (resp 200 (success_body eo ''now''))
     \<and> internal_handler \<lparr>eflow_key = Some ''k'', backend_key = None, node_env = None\<rparr>
          (\<lambda>c. if call_url c = list_url (QStr ''af1'') None
               then Resp 200 ''{}'' (Some (JObj [(''offers'', JArr [JObj [(''network_offer_id'', JNum 7)]])]))
               else Resp 200 ''{}'' (Some (JObj [(''default_payout'', JNum 5)])))
          [(''affiliate_id'', QStr ''af1'')]
          = Inr (resp 200 (JObj [(''offers'', JArr eo)]))"
  by (rule variants_same_offers [where s = "''af1''" and st = 200 and raw = "''{}''"
        and ps = "[(''offers'', JArr [JObj [(''network_offer_id'', JNum 7)]])]"
        and offers = "[JObj [(''network_offer_id'', JNum 7)]]"])
     (simp_all add: resp_ok_def q_truthy_def list_call_def)

end
